theory Spec2Isabelle
  imports Complex_Main "HOL-Library.Sublist" "HOL-Library.Log_Nat"
begin

section \<open>JavaScript numbers\<close>

text \<open>
  JavaScript numbers are IEEE 754 doubles: an operation returns the double nearest to
  its exact result, ties to even. \<open>double_of x\<close> is that rounding of the exact value \<open>x\<close>,
  for a result in the normal range of the doubles (53 significant bits) and before the
  test for overflow: \<open>expo x\<close> is the binary exponent of a positive \<open>x\<close>, so that
  \<open>2 powi (expo x - 52)\<close> is the distance between the doubles around it.
\<close>

definition expo :: "rat \<Rightarrow> int" where
  "expo x =
     (let (a, b) = quotient_of x; e0 = bitlen a - bitlen b
      in if 2 powi e0 \<le> x then e0 else e0 - 1)"

definition round_half_even :: "rat \<Rightarrow> int" where
  "round_half_even y =
     (let f = \<lfloor>y\<rfloor>; d = y - of_int f
      in if d < 1 / 2 then f else if 1 / 2 < d then f + 1 else if even f then f else f + 1)"

definition double_of :: "rat \<Rightarrow> rat" where
  "double_of x =
     (if x = 0 then 0
      else (let u = 2 powi (expo \<bar>x\<bar> - 52)
            in of_int (round_half_even (x / u)) * u))"

text \<open>A number that is an integer or \<open>Infinity\<close>.\<close>

datatype number = Finite int | Infinity

section \<open>Strings and the regular expressions of the scoring parser\<close>

text \<open>
  JavaScript strings are modelled as \<open>string\<close>: lists of 8-bit characters, that is the
  code units up to U+00FF. Within that range the class \<open>\s\<close> of a JavaScript regular
  expression (and the characters removed by \<open>String.prototype.trim\<close>) is TAB, LF, VT, FF,
  CR, SPACE and NBSP; \<open>\d\<close> is \<open>0\<close> to \<open>9\<close>; and the flag \<open>i\<close> folds the ASCII letters
  only, because a code unit of 128 or more is never canonicalised to an ASCII one.
\<close>

definition is_space :: "char \<Rightarrow> bool" where
  "is_space c \<longleftrightarrow> of_char c \<in> {9, 10, 11, 12, 13, 32, 160 :: nat}"

definition is_digit :: "char \<Rightarrow> bool" where
  "is_digit c \<longleftrightarrow> 48 \<le> (of_char c :: nat) \<and> (of_char c :: nat) \<le> 57"

definition newline :: char where
  "newline = char_of (10 :: nat)"

definition ascii_upper :: "char \<Rightarrow> char" where
  "ascii_upper c =
     (if 97 \<le> (of_char c :: nat) \<and> (of_char c :: nat) \<le> 122
      then char_of ((of_char c :: nat) - 32) else c)"

text \<open>A literal of a pattern under the flag \<open>i\<close>, anchored at the start of the text:
  the rest of the text after the literal, when the text starts with it.\<close>

fun strip_prefix_ci :: "string \<Rightarrow> string \<Rightarrow> string option" where
  "strip_prefix_ci [] s = Some s"
| "strip_prefix_ci (p # ps) [] = None"
| "strip_prefix_ci (p # ps) (c # cs) =
     (if ascii_upper c = ascii_upper p then strip_prefix_ci ps cs else None)"

text \<open>\<open>text.match(regex)\<close> of a regex without the flag \<open>g\<close> returns the leftmost match:
  the anchored matcher is tried at every start position, from left to right, the position
  after the last character included.\<close>

fun leftmost :: "(string \<Rightarrow> 'a option) \<Rightarrow> string \<Rightarrow> 'a option" where
  "leftmost m [] = m []"
| "leftmost m (c # cs) = (case m (c # cs) of Some x \<Rightarrow> Some x | None \<Rightarrow> leftmost m cs)"

text \<open>The tails of the five patterns, each returning its capture group 1.

  \<open>\s*(\d+)\<close>: the greedy \<open>\s*\<close> takes all the white space; giving some of it back never
  helps, since a white-space character is not a digit.\<close>

definition tail_digits :: "string \<Rightarrow> string option" where
  "tail_digits r =
     (let d = takeWhile is_digit (dropWhile is_space r)
      in if d = [] then None else Some d)"

text \<open>\<open>\s*([^-]+)\<close>: when the text after the white space is empty or starts with a hyphen,
  the matcher backtracks and \<open>\s*\<close> gives back its last character, which the group then
  takes alone.\<close>

definition tail_no_hyphen :: "string \<Rightarrow> string option" where
  "tail_no_hyphen r =
     (let ws = takeWhile is_space r;
          cap = takeWhile (\<lambda>c. c \<noteq> CHR ''-'') (dropWhile is_space r)
      in if cap \<noteq> [] then Some cap
         else if ws \<noteq> [] then Some [last ws]
         else None)"

text \<open>\<open>\s*([^\n]+)\<close>: when only white space follows, \<open>\s*\<close> gives back characters until
  the group can start on one that is not a line feed; the characters after it are line
  feeds, so the group is that one character.\<close>

definition tail_line :: "string \<Rightarrow> string option" where
  "tail_line r =
     (let ws = takeWhile is_space r; rest = dropWhile is_space r
      in if rest \<noteq> [] then Some (takeWhile (\<lambda>c. c \<noteq> newline) rest)
         else (case dropWhile (\<lambda>c. c = newline) (rev ws) of
                 [] \<Rightarrow> None
               | c # _ \<Rightarrow> Some [c]))"

definition re_match :: "string \<Rightarrow> (string \<Rightarrow> string option) \<Rightarrow> string \<Rightarrow> string option" where
  "re_match lit tail s =
     leftmost (\<lambda>u. case strip_prefix_ci lit u of None \<Rightarrow> None | Some r \<Rightarrow> tail r) s"

definition re_score :: "string \<Rightarrow> string option" where
  "re_score = re_match ''Score:'' tail_digits"

definition re_feedback :: "string \<Rightarrow> string option" where
  "re_feedback = re_match ''Feedback:'' tail_no_hyphen"

definition re_keypoints :: "string \<Rightarrow> string option" where
  "re_keypoints = re_match ''Key Points:'' tail_line"

definition re_voicetone :: "string \<Rightarrow> string option" where
  "re_voicetone = re_match ''Voice Tone:'' tail_line"

definition re_confidence :: "string \<Rightarrow> string option" where
  "re_confidence = re_match ''Confidence:'' tail_line"

text \<open>\<open>parseInt(d, 10)\<close> on a non-empty string of decimal digits: the Number value of
  the integer the digits write, which is the double nearest to that integer, ties to
  even, and \<open>Infinity\<close> when the rounding reaches \<open>2^1024\<close>. The value is the integer itself
  below \<open>2^53\<close>. (For more than 20 significant digits the language allows an implementation
  to read the later digits as zeros; the model rounds the integer as written.)\<close>

definition digits_value :: "string \<Rightarrow> int" where
  "digits_value d = foldl (\<lambda>n c. 10 * n + (int (of_char c) - 48)) 0 d"

definition parseInt :: "string \<Rightarrow> number" where
  "parseInt d =
     (let x = double_of (of_int (digits_value d))
      in if 2 ^ 1024 \<le> x then Infinity else Finite \<lfloor>x\<rfloor>)"

text \<open>\<open>Math.min(parsedScore, maxScore)\<close>, the second argument an integer.\<close>

fun Math_min :: "number \<Rightarrow> int \<Rightarrow> int" where
  "Math_min (Finite n) maxScore = min n maxScore"
| "Math_min Infinity maxScore = maxScore"

definition trim :: "string \<Rightarrow> string" where
  "trim s = rev (dropWhile is_space (rev (dropWhile is_space s)))"

text \<open>\<open>s.split(/,|\n/)\<close>: the pieces between the separators, empty pieces included.\<close>

fun split_points :: "string \<Rightarrow> string list" where
  "split_points [] = [[]]"
| "split_points (c # cs) =
     (if c = CHR '','' \<or> c = newline then [] # split_points cs
      else (case split_points cs of
              [] \<Rightarrow> [[c]]
            | w # ws \<Rightarrow> (c # w) # ws))"

section \<open>The scoring parser (answer route)\<close>

record analysis =
  score :: int
  evaluationFeedback :: string
  matchedKeyPoints :: "string list"
  voiceTone :: "string option"
  confidence :: "string option"

definition DEFAULT_MAX_SCORE :: int where
  "DEFAULT_MAX_SCORE = 10"

text \<open>
  \<open>parseAnalysisResponse(analysisText, maxScore = CONFIG.DEFAULT_MAX_SCORE)\<close>. The text is
  \<open>None\<close> for \<open>null\<close>; the empty string is falsy as well. The second argument is \<open>None\<close> when
  the caller passes \<open>undefined\<close>, which selects the default. \<open>Math.floor(maxScore / 2)\<close> is
  \<open>div\<close> on \<open>int\<close>, which rounds towards minus infinity. A capture group of these patterns
  is never empty, so the test \<open>match && match[1]\<close> is the test for a match.
\<close>

definition parseAnalysisResponse :: "string option \<Rightarrow> int option \<Rightarrow> analysis" where
  "parseAnalysisResponse analysisText maxScoreArg =
     (let maxScore = (case maxScoreArg of None \<Rightarrow> DEFAULT_MAX_SCORE | Some m \<Rightarrow> m)
      in case analysisText of
           None \<Rightarrow>
             \<lparr>score = maxScore div 2,
              evaluationFeedback = ''Unable to generate detailed analysis.'',
              matchedKeyPoints = [], voiceTone = None, confidence = None\<rparr>
         | Some t \<Rightarrow>
             if t = [] then
               \<lparr>score = maxScore div 2,
                evaluationFeedback = ''Unable to generate detailed analysis.'',
                matchedKeyPoints = [], voiceTone = None, confidence = None\<rparr>
             else
               \<lparr>score = (case re_score t of
                           None \<Rightarrow> maxScore div 2
                         | Some d \<Rightarrow> Math_min (parseInt d) maxScore),
                evaluationFeedback = (case re_feedback t of
                           None \<Rightarrow> ''No specific feedback provided.''
                         | Some f \<Rightarrow> trim f),
                matchedKeyPoints = (case re_keypoints t of
                           None \<Rightarrow> []
                         | Some k \<Rightarrow> filter (\<lambda>p. p \<noteq> []) (map trim (split_points k))),
                voiceTone = (case re_voicetone t of None \<Rightarrow> None | Some v \<Rightarrow> Some (trim v)),
                confidence = (case re_confidence t of None \<Rightarrow> None | Some v \<Rightarrow> Some (trim v))\<rparr>)"


section \<open>The data store\<close>

text \<open>
  The handlers reach a relational store through an ORM. Its schema is not among the
  sources, so the tables are modelled from the fields the handlers read and write: a
  table is the list of its rows in creation order, a created row is appended, and the
  store numbers the rows it creates (identifiers are opaque non-empty strings in the
  source). A field of a request that holds an identifier is \<open>None\<close> when it is
  absent or falsy.
\<close>

type_synonym ident = nat

datatype json = JNull | JBool bool | JNum int | JStr string | JArr "json list"

text \<open>JavaScript truthiness of a field of a parsed JSON body; \<open>None\<close> is \<open>undefined\<close>.\<close>

fun truthy :: "json option \<Rightarrow> bool" where
  "truthy None = False"
| "truthy (Some JNull) = False"
| "truthy (Some (JBool b)) = b"
| "truthy (Some (JNum n)) = (n \<noteq> 0)"
| "truthy (Some (JStr s)) = (s \<noteq> [])"
| "truthy (Some (JArr xs)) = True"

type_synonym fields = "string \<Rightarrow> json option"

record hr_user =
  u_id :: ident
  u_resume :: "string option"

record hr_interview =
  i_id :: ident
  i_userId :: "ident option"
  i_jobPosition :: "json option"
  i_jobDescription :: "json option"
  i_jobExperience :: "json option"
  i_skills :: "json option"
  i_difficultyLevel :: "json option"
  i_resumeUrl :: "json option"
  i_passScore :: "json option"
  i_totalScore :: "json option"

record hr_question =
  q_id :: ident
  q_hrInterviewId :: ident
  q_text :: string
  q_category :: string
  q_expectedKeyPoints :: "string list"
  q_maxScore :: int
  q_timeLimit :: int

record hr_followup =
  f_id :: ident
  f_mainQuestionId :: ident
  f_text :: string
  f_category :: string
  f_expectedKeyPoints :: "string list"
  f_maxScore :: int
  f_timeLimit :: "int option"

record hr_answer =
  a_id :: ident
  a_hrQuestionId :: "ident option"
  a_hrFollowUpQuestionId :: "ident option"
  a_userId :: "ident option"
  a_userAnswer :: string
  a_videoUrl :: "string option"
  a_score :: "int option"
  a_evaluationFeedback :: "string option"
  a_matchedKeyPoints :: "string list"
  a_voiceTone :: "string option"
  a_confidence :: "string option"

record store =
  users :: "hr_user list"
  interviews :: "hr_interview list"
  questions :: "hr_question list"
  followups :: "hr_followup list"
  answers :: "hr_answer list"
  next_id :: nat

definition empty_store :: store where
  "empty_store =
     \<lparr>users = [], interviews = [], questions = [], followups = [], answers = [],
      next_id = 0\<rparr>"

text \<open>\<open>create\<close> on the tables of interviews, questions and follow-up questions: the row
  gets the next identifier and is appended.\<close>

definition create_interview :: "hr_interview \<Rightarrow> store \<Rightarrow> hr_interview \<times> store" where
  "create_interview d st =
     (let r = d\<lparr>i_id := next_id st\<rparr>
      in (r, st\<lparr>interviews := interviews st @ [r], next_id := Suc (next_id st)\<rparr>))"

definition create_question :: "hr_question \<Rightarrow> store \<Rightarrow> hr_question \<times> store" where
  "create_question d st =
     (let r = d\<lparr>q_id := next_id st\<rparr>
      in (r, st\<lparr>questions := questions st @ [r], next_id := Suc (next_id st)\<rparr>))"

definition create_followup :: "hr_followup \<Rightarrow> store \<Rightarrow> hr_followup \<times> store" where
  "create_followup d st =
     (let r = d\<lparr>f_id := next_id st\<rparr>
      in (r, st\<lparr>followups := followups st @ [r], next_id := Suc (next_id st)\<rparr>))"

text \<open>
  Modelled from the spec: the schema of the answers is not among the sources. The spec's
  data model gives a question one answer, and the handlers look an answer up with
  \<open>findUnique({ where: { hrQuestionId } })\<close> and \<open>upsert({ where: { hrQuestionId } })\<close>, which
  the ORM admits for a unique column only: the column \<open>hrQuestionId\<close> of the answers is
  unique, and \<open>create\<close> of a second answer for the same main question fails (\<open>None\<close>: the
  ORM throws). The follow-up question of an answer is an ordinary column.
\<close>

definition create_answer :: "hr_answer \<Rightarrow> store \<Rightarrow> (hr_answer \<times> store) option" where
  "create_answer d st =
     (if a_hrQuestionId d \<noteq> None
         \<and> (\<exists>a \<in> set (answers st). a_hrQuestionId a = a_hrQuestionId d)
      then None
      else (let r = d\<lparr>a_id := next_id st\<rparr>
            in Some (r, st\<lparr>answers := answers st @ [r], next_id := Suc (next_id st)\<rparr>)))"

text \<open>\<open>update({ where: { id }, data })\<close> on the answers: \<open>upd\<close> writes the fields of
  \<open>data\<close>; the updated row is returned, and the ORM throws (\<open>None\<close>) when no row has the
  identifier.\<close>

definition update_answer ::
  "ident \<Rightarrow> (hr_answer \<Rightarrow> hr_answer) \<Rightarrow> store \<Rightarrow> (hr_answer \<times> store) option" where
  "update_answer i upd st =
     (case find (\<lambda>a. a_id a = i) (answers st) of
        None \<Rightarrow> None
      | Some a \<Rightarrow>
          Some (upd a,
                st\<lparr>answers := map (\<lambda>a. if a_id a = i then upd a else a) (answers st)\<rparr>))"

text \<open>The relations an \<open>include\<close> loads.\<close>

definition followUpQuestions_of :: "store \<Rightarrow> ident \<Rightarrow> hr_followup list" where
  "followUpQuestions_of st q = filter (\<lambda>f. f_mainQuestionId f = q) (followups st)"

definition userAnswer_of :: "store \<Rightarrow> ident \<Rightarrow> hr_answer option" where
  "userAnswer_of st q = find (\<lambda>a. a_hrQuestionId a = Some q) (answers st)"

definition followup_answers_of :: "store \<Rightarrow> ident \<Rightarrow> hr_answer list" where
  "followup_answers_of st f = filter (\<lambda>a. a_hrFollowUpQuestionId a = Some f) (answers st)"

definition questions_of :: "store \<Rightarrow> ident \<Rightarrow> hr_question list" where
  "questions_of st i = filter (\<lambda>q. q_hrInterviewId q = i) (questions st)"

record question_view =
  v_question :: hr_question
  v_followUpQuestions :: "hr_followup list"
  v_userAnswer :: "hr_answer option"

definition view_question :: "store \<Rightarrow> hr_question \<Rightarrow> question_view" where
  "view_question st q =
     \<lparr>v_question = q, v_followUpQuestions = followUpQuestions_of st (q_id q),
      v_userAnswer = userAnswer_of st (q_id q)\<rparr>"

section \<open>Sessions, the generative model and responses\<close>

text \<open>
  \<open>auth()\<close> of the authentication library is asynchronous: it returns a promise of the
  session's auth object, which the handlers that read the session await (the interview
  page unwraps its route parameters with \<open>React.use\<close>, the framework version whose
  request APIs are asynchronous). The session is the signed-in user's identifier, \<open>None\<close>
  when nobody is signed in. A promise has no property \<open>userId\<close>: destructuring
  \<open>const { userId } = auth()\<close> without \<open>await\<close> yields \<open>undefined\<close>.
\<close>

datatype 'a promise = Promise 'a

fun await :: "'a promise \<Rightarrow> 'a" where
  "await (Promise x) = x"

record auth_object =
  auth_userId :: "ident option"

definition auth :: "ident option \<Rightarrow> auth_object promise" where
  "auth session = Promise \<lparr>auth_userId = session\<rparr>"

definition promise_userId :: "auth_object promise \<Rightarrow> ident option" where
  "promise_userId p = None"

text \<open>
  The generative model is the environment of a handler: \<open>ai k\<close> is the outcome of the
  handler's call number \<open>k\<close> (from 0) to \<open>generateContent\<close> during the request, the text of
  the response, or \<open>None\<close> when the call throws. A handler returns, with its response and
  the store, the number of calls it made.
\<close>

type_synonym ai_script = "nat \<Rightarrow> string option"

text \<open>\<open>x || d\<close> on a number, and \<open>s || d\<close> on an optional string.\<close>

definition num_or :: "int \<Rightarrow> int \<Rightarrow> int" where
  "num_or x d = (if x = 0 then d else x)"

definition str_truthy :: "string option \<Rightarrow> bool" where
  "str_truthy s \<longleftrightarrow> (case s of None \<Rightarrow> False | Some t \<Rightarrow> t \<noteq> [])"

text \<open>
  A response is its HTTP status and its JSON body. \<open>Error m\<close> is a body whose field
  \<open>error\<close> is \<open>m\<close> (a field \<open>details\<close> or \<open>message\<close> beside it carries the text of the
  caught exception and is not modelled); the other constructors are the bodies that carry
  rows of the store.
\<close>

datatype payload =
    Error string
  | MissingFields "string list"
  | ErrorRaw string string
  | MaxReached "hr_followup list"
  | InterviewData hr_interview "question_view list"
  | InterviewList "(hr_interview \<times> nat) list"
  | InterviewRow hr_interview
  | Deleted
  | AnswerTexts "(string \<times> string option) list"
  | QuestionData question_view
  | FollowUpCreated hr_followup
  | FollowUpData hr_followup "hr_answer list"
  | FollowUpList "(hr_followup \<times> hr_answer list) list"
  | FollowUpRow hr_followup
  | AnswerRow hr_answer
  | MainScored hr_answer analysis "hr_followup option"
  | FollowUpScored hr_answer analysis hr_followup

record response =
  status :: nat
  body :: payload

definition reply :: "nat \<Rightarrow> payload \<Rightarrow> response" where
  "reply c b = \<lparr>status = c, body = b\<rparr>"

section \<open>The interview handlers (part 000)\<close>

definition interview_view :: "store \<Rightarrow> hr_interview \<Rightarrow> payload" where
  "interview_view st i = InterviewData i (map (view_question st) (questions_of st (i_id i)))"

text \<open>\<open>GET\<close>: one interview of the caller, or all of them, newest first.\<close>

definition interview_GET :: "ident option \<Rightarrow> ident option \<Rightarrow> store \<Rightarrow> response \<times> store" where
  "interview_GET session interviewId st =
     (let userId = auth_userId (await (auth session))
      in if userId = None then (reply 401 (Error ''Unauthorized''), st)
         else (case interviewId of
                 Some iid \<Rightarrow>
                   (case find (\<lambda>i. i_id i = iid \<and> i_userId i = userId) (interviews st) of
                      None \<Rightarrow> (reply 404 (Error ''HR Interview not found''), st)
                    | Some hrInterview \<Rightarrow> (reply 200 (interview_view st hrInterview), st))
               | None \<Rightarrow>
                   (reply 200
                      (InterviewList
                         (map (\<lambda>i. (i, length (questions_of st (i_id i))))
                            (rev (filter (\<lambda>i. i_userId i = userId) (interviews st))))),
                    st)))"

text \<open>
  Modelled from the spec: the deletion rules of the schema are not among the sources;
  the spec's data model says that deleting an interview cascades, so the questions of a
  deleted interview, their follow-up questions and the answers to either go with it.
\<close>

definition delete_interviews :: "(hr_interview \<Rightarrow> bool) \<Rightarrow> store \<Rightarrow> store" where
  "delete_interviews P st =
     (let gone = set (map i_id (filter P (interviews st)));
          qids = set (map q_id (filter (\<lambda>q. q_hrInterviewId q \<in> gone) (questions st)));
          fids = set (map f_id (filter (\<lambda>f. f_mainQuestionId f \<in> qids) (followups st)))
      in st\<lparr>interviews := filter (\<lambda>i. \<not> P i) (interviews st),
            questions := filter (\<lambda>q. q_hrInterviewId q \<notin> gone) (questions st),
            followups := filter (\<lambda>f. f_mainQuestionId f \<notin> qids) (followups st),
            answers := filter (\<lambda>a. (case a_hrQuestionId a of
                                        None \<Rightarrow> True | Some q \<Rightarrow> q \<notin> qids)
                                   \<and> (case a_hrFollowUpQuestionId a of
                                        None \<Rightarrow> True | Some f \<Rightarrow> f \<notin> fids))
                         (answers st)\<rparr>)"

text \<open>\<open>DELETE\<close>: \<open>const { userId } = auth()\<close>, not awaited.\<close>

definition interview_DELETE :: "ident option \<Rightarrow> ident option \<Rightarrow> store \<Rightarrow> response \<times> store" where
  "interview_DELETE session interviewId st =
     (let userId = promise_userId (auth session)
      in if userId = None then (reply 401 (Error ''Unauthorized''), st)
         else (case interviewId of
                 None \<Rightarrow> (reply 400 (Error ''HR Interview ID is required''), st)
               | Some iid \<Rightarrow>
                   (reply 200 Deleted,
                    delete_interviews (\<lambda>i. i_id i = iid \<and> i_userId i = userId) st)))"

text \<open>\<open>POST\<close>: \<open>const { userId } = auth()\<close>, not awaited. The body is \<open>None\<close> when
  \<open>req.json()\<close> throws.\<close>

definition interview_POST :: "ident option \<Rightarrow> fields option \<Rightarrow> store \<Rightarrow> response \<times> store" where
  "interview_POST session reqBody st =
     (let userId = promise_userId (auth session)
      in if userId = None then (reply 401 (Error ''Unauthorized''), st)
         else (case reqBody of
                 None \<Rightarrow> (reply 500 (Error ''Failed to create interview''), st)
               | Some b \<Rightarrow>
                   (let (newInterview, st') =
                          create_interview
                            \<lparr>i_id = 0, i_userId = userId,
                             i_jobPosition = b ''jobPosition'',
                             i_jobDescription = b ''jobDescription'',
                             i_jobExperience = b ''jobExperience'',
                             i_skills = b ''skills'',
                             i_difficultyLevel = b ''difficultyLevel'',
                             i_resumeUrl = b ''resumeUrl'',
                             i_passScore = b ''passScore'',
                             i_totalScore = Some (JNum 0)\<rparr> st
                    in (reply 200 (InterviewRow newInterview), st'))))"

text \<open>\<open>data: body\<close> of an update writes the fields the body holds.\<close>

definition patch_field :: "fields \<Rightarrow> string \<Rightarrow> json option \<Rightarrow> json option" where
  "patch_field b k old = (case b k of None \<Rightarrow> old | Some v \<Rightarrow> Some v)"

definition patch_interview :: "fields \<Rightarrow> hr_interview \<Rightarrow> hr_interview" where
  "patch_interview b i =
     i\<lparr>i_jobPosition := patch_field b ''jobPosition'' (i_jobPosition i),
       i_jobDescription := patch_field b ''jobDescription'' (i_jobDescription i),
       i_jobExperience := patch_field b ''jobExperience'' (i_jobExperience i),
       i_skills := patch_field b ''skills'' (i_skills i),
       i_difficultyLevel := patch_field b ''difficultyLevel'' (i_difficultyLevel i),
       i_resumeUrl := patch_field b ''resumeUrl'' (i_resumeUrl i),
       i_passScore := patch_field b ''passScore'' (i_passScore i),
       i_totalScore := patch_field b ''totalScore'' (i_totalScore i)\<rparr>"

text \<open>\<open>PATCH\<close>: \<open>const { userId } = auth()\<close>, not awaited. \<open>update\<close> throws when no row
  matches.\<close>

definition interview_PATCH ::
  "ident option \<Rightarrow> ident option \<Rightarrow> fields option \<Rightarrow> store \<Rightarrow> response \<times> store" where
  "interview_PATCH session interviewId reqBody st =
     (let userId = promise_userId (auth session)
      in if userId = None then (reply 401 (Error ''Unauthorized''), st)
         else (case interviewId of
                 None \<Rightarrow> (reply 400 (Error ''HR Interview ID is required''), st)
               | Some iid \<Rightarrow>
                   (case reqBody of
                      None \<Rightarrow> (reply 500 (Error ''Failed to update interview''), st)
                    | Some b \<Rightarrow>
                        (case find (\<lambda>i. i_id i = iid \<and> i_userId i = userId) (interviews st) of
                           None \<Rightarrow> (reply 500 (Error ''Failed to update interview''), st)
                         | Some i \<Rightarrow>
                             (reply 200 (InterviewRow (patch_interview b i)),
                              st\<lparr>interviews :=
                                    map (\<lambda>j. if i_id j = iid \<and> i_userId j = userId
                                             then patch_interview b j else j)
                                      (interviews st)\<rparr>)))))"

section \<open>The question handlers (part 001)\<close>

text \<open>\<open>GET\<close> of the answers of an interview. The handler does not call \<open>auth()\<close>: it
  takes no session.\<close>

definition answers_GET :: "ident option \<Rightarrow> store \<Rightarrow> response \<times> store" where
  "answers_GET interviewId st =
     (case interviewId of
        None \<Rightarrow> (reply 400 (Error ''Interview Id is required''), st)
      | Some iid \<Rightarrow>
          (let qs = questions_of st iid;
               questionIds = map q_id qs;
               userAnswers =
                 filter (\<lambda>a. case a_hrQuestionId a of
                               None \<Rightarrow> False | Some q \<Rightarrow> q \<in> set questionIds)
                   (answers st)
           in (reply 200
                 (AnswerTexts
                    (map (\<lambda>q. (q_text q,
                                case find (\<lambda>ans. a_hrQuestionId ans = Some (q_id q)) userAnswers of
                                  None \<Rightarrow> None
                                | Some ans \<Rightarrow>
                                    if a_userAnswer ans = [] then None
                                    else Some (a_userAnswer ans)))
                       qs)),
               st)))"

definition MAX_FOLLOWUP_QUESTIONS :: nat where
  "MAX_FOLLOWUP_QUESTIONS = 2"

text \<open>The follow-up question the two handlers of this file create:
  \<open>Math.floor((maxScore ?? 10) * 0.5)\<close> and \<open>Math.floor((timeLimit ?? 120) * 0.75)\<close> on the
  integers a question row holds.\<close>

definition generated_followup :: "hr_question \<Rightarrow> string \<Rightarrow> hr_followup" where
  "generated_followup question followUpText =
     \<lparr>f_id = 0, f_mainQuestionId = q_id question, f_text = followUpText,
      f_category = q_category question, f_expectedKeyPoints = [],
      f_maxScore = q_maxScore question div 2,
      f_timeLimit = Some ((3 * q_timeLimit question) div 4)\<rparr>"

text \<open>
  \<open>GET\<close> of the questions of an interview; with \<open>questionId\<close> and \<open>generateFollowUp=true\<close>
  it generates a follow-up question. The interview is fetched by its identifier alone.
  The call to the model is not guarded: when it throws, the handler's \<open>catch\<close> answers 500.
\<close>

definition questions_GET ::
  "ai_script \<Rightarrow> ident option \<Rightarrow> ident \<Rightarrow> ident option \<Rightarrow> bool \<Rightarrow> store
   \<Rightarrow> response \<times> store \<times> nat" where
  "questions_GET ai session interviewId questionId generateFollowUp st =
     (let userId = auth_userId (await (auth session))
      in if userId = None then (reply 401 (Error ''Unauthorized''), st, 0)
         else (case find (\<lambda>i. i_id i = interviewId) (interviews st) of
                 None \<Rightarrow> (reply 404 (Error ''Interview not found''), st, 0)
               | Some hrInterview \<Rightarrow>
                   (case questionId of
                      None \<Rightarrow> (reply 200 (interview_view st hrInterview), st, 0)
                    | Some qid \<Rightarrow>
                        (case find (\<lambda>q. q_id q = qid) (questions_of st (i_id hrInterview)) of
                           None \<Rightarrow> (reply 404 (Error ''Question not found''), st, 0)
                         | Some q \<Rightarrow>
                             (let question = view_question st q
                              in if generateFollowUp
                                    \<and> length (v_followUpQuestions question) < MAX_FOLLOWUP_QUESTIONS
                                 then
                                   (if v_userAnswer question = None
                                    then (reply 400
                                            (Error ''Cannot generate follow-up without a user answer''),
                                          st, 0)
                                    else (case ai 0 of
                                            None \<Rightarrow>
                                              (reply 500 (Error ''Failed to fetch questions''), st, 1)
                                          | Some followUpText \<Rightarrow>
                                              (let (followUpQuestion, st') =
                                                     create_followup
                                                       (generated_followup q followUpText) st
                                               in (reply 200
                                                     (QuestionData
                                                        (question\<lparr>v_followUpQuestions :=
                                                           v_followUpQuestions question
                                                             @ [followUpQuestion]\<rparr>)),
                                                   st', 1))))
                                 else (reply 200 (QuestionData question), st, 0))))))"

record followup_request =
  r_questionId :: "ident option"
  r_userAnswer :: "string option"

text \<open>\<open>POST\<close>: generates a follow-up question for a question of the interview.\<close>

definition questions_POST ::
  "ai_script \<Rightarrow> ident option \<Rightarrow> ident \<Rightarrow> followup_request option \<Rightarrow> store
   \<Rightarrow> response \<times> store \<times> nat" where
  "questions_POST ai session interviewId reqBody st =
     (let userId = auth_userId (await (auth session))
      in if userId = None then (reply 401 (Error ''Unauthorized''), st, 0)
         else (case reqBody of
                 None \<Rightarrow> (reply 500 (Error ''Failed to generate follow-up question''), st, 0)
               | Some b \<Rightarrow>
                   (case r_questionId b of
                      None \<Rightarrow> (reply 400 (Error ''Missing required fields''), st, 0)
                    | Some questionId \<Rightarrow>
                        if \<not> str_truthy (r_userAnswer b)
                        then (reply 400 (Error ''Missing required fields''), st, 0)
                        else (case find (\<lambda>q. q_id q = questionId \<and> q_hrInterviewId q = interviewId)
                                     (questions st) of
                                None \<Rightarrow> (reply 404 (Error ''Question not found''), st, 0)
                              | Some question \<Rightarrow>
                                  if length (followUpQuestions_of st (q_id question))
                                       \<ge> MAX_FOLLOWUP_QUESTIONS
                                  then (reply 400
                                          (MaxReached (followUpQuestions_of st (q_id question))),
                                        st, 0)
                                  else (case ai 0 of
                                          None \<Rightarrow>
                                            (reply 500
                                               (Error ''Failed to generate follow-up question''),
                                             st, 1)
                                        | Some followUpText \<Rightarrow>
                                            (let (followUpQuestion, st') =
                                                   create_followup
                                                     (generated_followup question followUpText) st
                                             in (reply 200 (FollowUpCreated followUpQuestion),
                                                 st', 1)))))))"

section \<open>The handlers of the route file\<close>

subsection \<open>Interview creation\<close>

text \<open>
  The questions the model generates, as \<open>extractJSON\<close> and the field \<open>questions\<close> deliver
  them. \<open>JSON.parse\<close> belongs to the runtime: the handler takes the parser as the function
  \<open>parse\<close>, from the text of the model's response to \<open>ParseError\<close> (no JSON block, or one
  that does not parse) or to the value of \<open>questions\<close>, \<open>None\<close> when the field is absent.
  An optional field of a generated question is \<open>None\<close> when it is absent.
\<close>

record gen_followup =
  gf_text :: string
  gf_expectedKeyPoints :: "string list option"
  gf_maxScore :: "int option"
  gf_timeLimit :: "int option"

record gen_question =
  gq_text :: string
  gq_category :: "string option"
  gq_expectedKeyPoints :: "string list option"
  gq_maxScore :: "int option"
  gq_timeLimit :: "int option"
  gq_followUpQuestions :: "gen_followup list option"

datatype parsed = ParseError | Parsed "gen_question list option"

text \<open>
  The body of the creation request as \<open>req.json()\<close> delivers it: \<open>None\<close> when the body
  cannot be read as JSON (the call throws), \<open>NullBody\<close> for the JSON value \<open>null\<close>, whose
  property access \<open>requestBody[field]\<close> throws, and \<open>ObjectBody\<close> with the fields of an
  object. A body that is a number, a string, a boolean or an array has none of the fields
  the handler reads: it is \<open>ObjectBody\<close> of no fields.
\<close>

datatype json_body = NullBody | ObjectBody fields

definition requiredFields :: "string list" where
  "requiredFields =
     [''jobPosition'', ''jobDescription'', ''jobExperience'', ''difficultyLevel'',
      ''totalQuestions'']"

definition opt_or :: "'a option \<Rightarrow> 'a \<Rightarrow> 'a" where
  "opt_or x d = (case x of None \<Rightarrow> d | Some v \<Rightarrow> v)"

definition opt_num_or :: "int option \<Rightarrow> int \<Rightarrow> int" where
  "opt_num_or x d = (case x of None \<Rightarrow> d | Some v \<Rightarrow> num_or v d)"

definition opt_str_or :: "string option \<Rightarrow> string \<Rightarrow> string" where
  "opt_str_or x d = (case x of None \<Rightarrow> d | Some v \<Rightarrow> if v = [] then d else v)"

text \<open>\<open>skills?.join(", ")\<close> in the prompt throws a \<open>TypeError\<close> unless \<open>skills\<close> is
  \<open>undefined\<close>, \<open>null\<close> or an array.\<close>

fun join_defined :: "json option \<Rightarrow> bool" where
  "join_defined None = True"
| "join_defined (Some JNull) = True"
| "join_defined (Some (JArr xs)) = True"
| "join_defined (Some v) = False"

text \<open>\<open>String(v)\<close> on a JSON value.\<close>

fun decimal :: "nat \<Rightarrow> string" where
  "decimal n =
     (if n < 10 then [char_of (48 + n)]
      else decimal (n div 10) @ [char_of (48 + n mod 10)])"

declare decimal.simps [simp del]

fun join_commas :: "string list \<Rightarrow> string" where
  "join_commas [] = []"
| "join_commas [x] = x"
| "join_commas (x # y # ys) = x @ '','' @ join_commas (y # ys)"

fun js_String :: "json \<Rightarrow> string" where
  "js_String JNull = ''null''"
| "js_String (JBool b) = (if b then ''true'' else ''false'')"
| "js_String (JNum n) = (if n < 0 then ''-'' @ decimal (nat (- n)) else decimal (nat n))"
| "js_String (JStr s) = s"
| "js_String (JArr xs) =
     join_commas (map (\<lambda>x. if x = JNull then [] else js_String x) xs)"

text \<open>The two loops that persist the generated questions and their follow-up
  questions, in order.\<close>

fun create_followups :: "ident \<Rightarrow> string \<Rightarrow> gen_followup list \<Rightarrow> store \<Rightarrow> store" where
  "create_followups mainQuestionId category [] st = st"
| "create_followups mainQuestionId category (followUp # rest) st =
     create_followups mainQuestionId category rest
       (snd (create_followup
               \<lparr>f_id = 0, f_mainQuestionId = mainQuestionId, f_text = gf_text followUp,
                f_category = category,
                f_expectedKeyPoints = opt_or (gf_expectedKeyPoints followUp) [],
                f_maxScore = opt_num_or (gf_maxScore followUp) 5,
                f_timeLimit = Some (opt_num_or (gf_timeLimit followUp) 90)\<rparr> st))"

fun create_questions :: "ident \<Rightarrow> gen_question list \<Rightarrow> store \<Rightarrow> store" where
  "create_questions hrInterviewId [] st = st"
| "create_questions hrInterviewId (question # rest) st =
     (let (mainQuestion, st1) =
            create_question
              \<lparr>q_id = 0, q_hrInterviewId = hrInterviewId, q_text = gq_text question,
               q_category = opt_str_or (gq_category question) ''General'',
               q_expectedKeyPoints = opt_or (gq_expectedKeyPoints question) [],
               q_maxScore = opt_num_or (gq_maxScore question) 10,
               q_timeLimit = opt_num_or (gq_timeLimit question) 120\<rparr> st;
          st2 = (case gq_followUpQuestions question of
                   None \<Rightarrow> st1
                 | Some followUps \<Rightarrow>
                     create_followups (q_id mainQuestion)
                       (opt_str_or (gq_category question) ''General'') followUps st1)
      in create_questions hrInterviewId rest st2)"

text \<open>
  \<open>POST\<close>: creates an interview with generated questions. The order of the checks is the
  source's: the session, the body, the user's row, the required fields, the prompt, the
  model, the parse, and only then the writes.
\<close>

definition hrRound_POST ::
  "ai_script \<Rightarrow> (string \<Rightarrow> parsed) \<Rightarrow> ident option \<Rightarrow> json_body option \<Rightarrow> store
   \<Rightarrow> response \<times> store \<times> nat" where
  "hrRound_POST ai parse session reqBody st =
     (let userId = auth_userId (await (auth session))
      in if userId = None then (reply 401 (Error ''Unauthorized''), st, 0)
         else (case reqBody of
                 None \<Rightarrow> (reply 500 (Error ''Internal Server Error''), st, 0)
               | Some parsedBody \<Rightarrow>
                   (case find (\<lambda>u. Some (u_id u) = userId) (users st) of
                      None \<Rightarrow> (reply 400 (Error ''No resume found''), st, 0)
                    | Some resumeurl \<Rightarrow>
                      (case parsedBody of
                         NullBody \<Rightarrow> (reply 500 (Error ''Internal Server Error''), st, 0)
                       | ObjectBody requestBody \<Rightarrow>
                        (let missingFields =
                               filter (\<lambda>field. \<not> truthy (requestBody field)) requiredFields
                         in if length missingFields > 0
                            then (reply 400 (MissingFields missingFields), st, 0)
                            else if \<not> join_defined (requestBody ''skills'')
                            then (reply 500 (Error ''Internal Server Error''), st, 0)
                            else (case ai 0 of
                                    None \<Rightarrow> (reply 500 (Error ''Internal Server Error''), st, 1)
                                  | Some questionsResponse \<Rightarrow>
                                      (case parse questionsResponse of
                                         ParseError \<Rightarrow>
                                           (reply 400
                                              (ErrorRaw ''Failed to parse AI response''
                                                 questionsResponse),
                                            st, 1)
                                       | Parsed None \<Rightarrow>
                                           (reply 400
                                              (ErrorRaw
                                                 ''No valid questions could be parsed from the AI response''
                                                 questionsResponse),
                                            st, 1)
                                       | Parsed (Some parsedQuestions) \<Rightarrow>
                                           if length parsedQuestions = 0
                                           then (reply 400
                                                   (ErrorRaw
                                                      ''No valid questions could be parsed from the AI response''
                                                      questionsResponse),
                                                 st, 1)
                                           else
                                             (let (hrInterview, st1) =
                                                    create_interview
                                                      \<lparr>i_id = 0, i_userId = userId,
                                                       i_jobPosition = requestBody ''jobPosition'',
                                                       i_jobDescription = requestBody ''jobDescription'',
                                                       i_jobExperience =
                                                         map_option (\<lambda>v. JStr (js_String v))
                                                           (requestBody ''jobExperience''),
                                                       i_skills =
                                                         (if truthy (requestBody ''skills'')
                                                          then requestBody ''skills''
                                                          else Some (JArr [])),
                                                       i_difficultyLevel =
                                                         requestBody ''difficultyLevel'',
                                                       i_resumeUrl = requestBody ''resumeUrl'',
                                                       i_passScore = None,
                                                       i_totalScore = None\<rparr> st;
                                                  st2 = create_questions (i_id hrInterview)
                                                          parsedQuestions st1
                                              in (reply 201 (interview_view st2 hrInterview),
                                                  st2, 1)))))))))"

subsection \<open>Follow-up questions and answers\<close>

text \<open>The owner of a question is the \<open>userId\<close> of its interview. The relations
  \<open>mainQuestion\<close> and \<open>hrInterview\<close> are required: where the store holds no such row the
  result is \<open>None\<close>, and the handler's property access throws.\<close>

definition interview_of_question :: "store \<Rightarrow> ident \<Rightarrow> hr_interview option" where
  "interview_of_question st q =
     (case find (\<lambda>x. q_id x = q) (questions st) of
        None \<Rightarrow> None
      | Some x \<Rightarrow> find (\<lambda>i. i_id i = q_hrInterviewId x) (interviews st))"

text \<open>\<open>GET\<close>: one follow-up question, or the follow-up questions of a main question.\<close>

definition followup_GET ::
  "ident option \<Rightarrow> ident option \<Rightarrow> ident option \<Rightarrow> store \<Rightarrow> response \<times> store" where
  "followup_GET session followupId mainQuestionId st =
     (let userId = auth_userId (await (auth session))
      in if userId = None then (reply 401 (Error ''Unauthorized''), st)
         else (case followupId of
                 Some fid \<Rightarrow>
                   (case find (\<lambda>f. f_id f = fid) (followups st) of
                      None \<Rightarrow> (reply 404 (Error ''Follow-up question not found''), st)
                    | Some followUp \<Rightarrow>
                        (case interview_of_question st (f_mainQuestionId followUp) of
                           None \<Rightarrow>
                             (reply 500 (Error ''Failed to retrieve follow-up questions''), st)
                         | Some hrInterview \<Rightarrow>
                             if i_userId hrInterview \<noteq> userId
                             then (reply 401 (Error ''Unauthorized''), st)
                             else (reply 200
                                     (FollowUpData followUp (followup_answers_of st (f_id followUp))),
                                   st)))
               | None \<Rightarrow>
                   (case mainQuestionId of
                      None \<Rightarrow> (reply 400 (Error ''Main question ID is required''), st)
                    | Some mq \<Rightarrow>
                        (case find (\<lambda>q. q_id q = mq) (questions st) of
                           None \<Rightarrow> (reply 404 (Error ''Main question not found''), st)
                         | Some mainQuestion \<Rightarrow>
                             (case interview_of_question st mq of
                                None \<Rightarrow>
                                  (reply 500 (Error ''Failed to retrieve follow-up questions''),
                                   st)
                              | Some hrInterview \<Rightarrow>
                                  if i_userId hrInterview \<noteq> userId
                                  then (reply 401 (Error ''Unauthorized''), st)
                                  else (reply 200
                                          (FollowUpList
                                             (map (\<lambda>f. (f, followup_answers_of st (f_id f)))
                                                (followUpQuestions_of st mq))),
                                        st))))))"

record followup_body =
  fb_mainQuestionId :: "ident option"
  fb_text :: string
  fb_category :: string
  fb_expectedKeyPoints :: "string list"
  fb_maxScore :: int
  fb_timeLimit :: "int option"

text \<open>\<open>POST\<close> of a follow-up question: \<open>const { userId } = auth()\<close>, not awaited.\<close>

definition followup_POST ::
  "ident option \<Rightarrow> followup_body option \<Rightarrow> store \<Rightarrow> response \<times> store" where
  "followup_POST session reqBody st =
     (let userId = promise_userId (auth session)
      in if userId = None then (reply 401 (Error ''Unauthorized''), st)
         else (case reqBody of
                 None \<Rightarrow> (reply 500 (Error ''Failed to create follow-up question''), st)
               | Some b \<Rightarrow>
                   (case fb_mainQuestionId b of
                      None \<Rightarrow> (reply 500 (Error ''Failed to create follow-up question''), st)
                    | Some mq \<Rightarrow>
                        (case find (\<lambda>q. q_id q = mq) (questions st) of
                           None \<Rightarrow> (reply 404 (Error ''Main question not found''), st)
                         | Some mainQuestion \<Rightarrow>
                             (case interview_of_question st mq of
                                None \<Rightarrow>
                                  (reply 500 (Error ''Failed to create follow-up question''), st)
                              | Some hrInterview \<Rightarrow>
                                  if i_userId hrInterview \<noteq> userId
                                  then (reply 401 (Error ''Unauthorized''), st)
                                  else
                                    (let (newFollowUp, st') =
                                           create_followup
                                             \<lparr>f_id = 0, f_mainQuestionId = mq,
                                              f_text = fb_text b, f_category = fb_category b,
                                              f_expectedKeyPoints = fb_expectedKeyPoints b,
                                              f_maxScore = fb_maxScore b,
                                              f_timeLimit = fb_timeLimit b\<rparr> st
                                     in (reply 200 (FollowUpRow newFollowUp), st')))))))"

record answer_body =
  ab_hrQuestionId :: "ident option"
  ab_hrFollowUpQuestionId :: "ident option"
  ab_userAnswer :: string
  ab_videoUrl :: "string option"

definition blank_answer :: hr_answer where
  "blank_answer =
     \<lparr>a_id = 0, a_hrQuestionId = None, a_hrFollowUpQuestionId = None, a_userId = None,
      a_userAnswer = [], a_videoUrl = None, a_score = None, a_evaluationFeedback = None,
      a_matchedKeyPoints = [], a_voiceTone = None, a_confidence = None\<rparr>"

text \<open>\<open>POST\<close> of an answer: \<open>const { userId } = auth()\<close>, not awaited. A \<open>videoUrl\<close> that
  is absent from the body leaves the column of an updated row as it is.\<close>

definition answer_POST ::
  "ident option \<Rightarrow> answer_body option \<Rightarrow> store \<Rightarrow> response \<times> store" where
  "answer_POST session reqBody st =
     (let userId = promise_userId (auth session);
          failed = (reply 500 (Error ''Failed to submit answer''), st)
      in if userId = None then (reply 401 (Error ''Unauthorized''), st)
         else (case reqBody of
                 None \<Rightarrow> failed
               | Some b \<Rightarrow>
                   (let create =
                          (case create_answer
                                  (blank_answer
                                     \<lparr>a_hrQuestionId := ab_hrQuestionId b,
                                      a_hrFollowUpQuestionId := ab_hrFollowUpQuestionId b,
                                      a_userId := userId,
                                      a_userAnswer := ab_userAnswer b,
                                      a_videoUrl := ab_videoUrl b,
                                      a_matchedKeyPoints := []\<rparr>) st of
                             None \<Rightarrow> failed
                           | Some (newAnswer, st') \<Rightarrow> (reply 200 (AnswerRow newAnswer), st'))
                    in case ab_hrQuestionId b of
                         Some hrQuestionId \<Rightarrow>
                           (case find (\<lambda>q. q_id q = hrQuestionId) (questions st) of
                              None \<Rightarrow> (reply 404 (Error ''Question not found''), st)
                            | Some question \<Rightarrow>
                                (case interview_of_question st hrQuestionId of
                                   None \<Rightarrow> failed
                                 | Some hrInterview \<Rightarrow>
                                     if i_userId hrInterview \<noteq> userId
                                     then (reply 401 (Error ''Unauthorized''), st)
                                     else (case userAnswer_of st hrQuestionId of
                                             Some existingAnswer \<Rightarrow>
                                               (case update_answer (a_id existingAnswer)
                                                       (\<lambda>a. a\<lparr>a_userAnswer := ab_userAnswer b,
                                                               a_videoUrl :=
                                                                 (case ab_videoUrl b of
                                                                    None \<Rightarrow> a_videoUrl a
                                                                  | Some v \<Rightarrow> Some v)\<rparr>) st of
                                                  None \<Rightarrow> failed
                                                | Some (updatedAnswer, st') \<Rightarrow>
                                                    (reply 200 (AnswerRow updatedAnswer), st'))
                                           | None \<Rightarrow> create)))
                       | None \<Rightarrow>
                           (case ab_hrFollowUpQuestionId b of
                              Some hrFollowUpQuestionId \<Rightarrow>
                                (case find (\<lambda>f. f_id f = hrFollowUpQuestionId) (followups st) of
                                   None \<Rightarrow> (reply 404 (Error ''Follow-up question not found''), st)
                                 | Some followUp \<Rightarrow>
                                     (case interview_of_question st (f_mainQuestionId followUp) of
                                        None \<Rightarrow> failed
                                      | Some hrInterview \<Rightarrow>
                                          if i_userId hrInterview \<noteq> userId
                                          then (reply 401 (Error ''Unauthorized''), st)
                                          else create))
                            | None \<Rightarrow>
                                (reply 400
                                   (Error ''Either hrQuestionId or hrFollowUpQuestionId is required''),
                                 st)))))"

text \<open>\<open>data: body\<close> of the answer update, on the columns the handlers write.\<close>

definition patch_answer :: "fields \<Rightarrow> hr_answer \<Rightarrow> hr_answer" where
  "patch_answer b a =
     a\<lparr>a_userAnswer := (case b ''userAnswer'' of Some (JStr t) \<Rightarrow> t | _ \<Rightarrow> a_userAnswer a),
       a_videoUrl := (case b ''videoUrl'' of
                        Some (JStr t) \<Rightarrow> Some t | Some JNull \<Rightarrow> None | _ \<Rightarrow> a_videoUrl a),
       a_score := (case b ''score'' of
                     Some (JNum n) \<Rightarrow> Some n | Some JNull \<Rightarrow> None | _ \<Rightarrow> a_score a),
       a_evaluationFeedback :=
         (case b ''evaluationFeedback'' of
            Some (JStr t) \<Rightarrow> Some t | Some JNull \<Rightarrow> None | _ \<Rightarrow> a_evaluationFeedback a)\<rparr>"

text \<open>\<open>PATCH\<close> of an answer: \<open>const { userId } = auth()\<close>, not awaited.\<close>

definition answer_PATCH ::
  "ident option \<Rightarrow> ident option \<Rightarrow> fields option \<Rightarrow> store \<Rightarrow> response \<times> store" where
  "answer_PATCH session answerId reqBody st =
     (let userId = promise_userId (auth session);
          failed = (reply 500 (Error ''Failed to update answer''), st)
      in if userId = None then (reply 401 (Error ''Unauthorized''), st)
         else (case answerId of
                 None \<Rightarrow> (reply 400 (Error ''Answer ID is required''), st)
               | Some aid \<Rightarrow>
                   (case reqBody of
                      None \<Rightarrow> failed
                    | Some b \<Rightarrow>
                        (case find (\<lambda>a. a_id a = aid) (answers st) of
                           None \<Rightarrow> (reply 404 (Error ''Answer not found''), st)
                         | Some answer \<Rightarrow>
                             (let owner =
                                    (case a_hrQuestionId answer of
                                       Some q \<Rightarrow> map_option i_userId (interview_of_question st q)
                                     | None \<Rightarrow>
                                         (case a_hrFollowUpQuestionId answer of
                                            Some f \<Rightarrow>
                                              (case find (\<lambda>x. f_id x = f) (followups st) of
                                                 None \<Rightarrow> None
                                               | Some x \<Rightarrow>
                                                   map_option i_userId
                                                     (interview_of_question st (f_mainQuestionId x)))
                                          | None \<Rightarrow> Some None))
                              in case owner of
                                   None \<Rightarrow> failed
                                 | Some interviewUser \<Rightarrow>
                                     if (a_hrQuestionId answer = None
                                           \<and> a_hrFollowUpQuestionId answer = None)
                                        \<or> interviewUser \<noteq> userId
                                     then (reply 401 (Error ''Unauthorized''), st)
                                     else (case update_answer aid (patch_answer b) st of
                                             None \<Rightarrow> failed
                                           | Some (updatedAnswer, st') \<Rightarrow>
                                               (reply 200 (AnswerRow updatedAnswer), st')))))))"

section \<open>The answer handlers (answer route)\<close>

text \<open>
  \<open>AIAnalysisService.analyzeAnswer\<close> and \<open>generateFollowUpQuestion\<close> catch the exception of
  a failed call and return \<open>null\<close>: the outcome \<open>ai k\<close> of the call is what they return.
\<close>

record answer_request =
  ar_hrQuestionId :: "ident option"
  ar_followUpQuestionId :: "ident option"
  ar_userAnswer :: "string option"
  ar_videoUrl :: "string option"

text \<open>The spread \<open>...analysis\<close> in the data of an answer.\<close>

definition apply_analysis :: "analysis \<Rightarrow> hr_answer \<Rightarrow> hr_answer" where
  "apply_analysis an a =
     a\<lparr>a_score := Some (score an),
       a_evaluationFeedback := Some (evaluationFeedback an),
       a_matchedKeyPoints := matchedKeyPoints an,
       a_voiceTone := voiceTone an,
       a_confidence := confidence an\<rparr>"

text \<open>The follow-up question the answer handlers create:
  \<open>Math.floor((maxScore || DEFAULT_MAX_SCORE) * DEFAULT_FOLLOWUP_SCORE_RATIO)\<close>; the columns
  the data leaves out take the defaults of the schema.\<close>

definition scored_followup :: "hr_question \<Rightarrow> string \<Rightarrow> hr_followup" where
  "scored_followup mainQuestion followUpText =
     \<lparr>f_id = 0, f_mainQuestionId = q_id mainQuestion, f_text = followUpText,
      f_category = q_category mainQuestion, f_expectedKeyPoints = [],
      f_maxScore = num_or (q_maxScore mainQuestion) DEFAULT_MAX_SCORE div 2,
      f_timeLimit = None\<rparr>"

text \<open>The block that saves the answer to a main question: the answer of this user to
  the question is updated when there is one, and an answer is created otherwise (the
  created row has no \<open>videoUrl\<close>). \<open>None\<close> when the ORM throws.\<close>

definition save_main_answer ::
  "ident \<Rightarrow> ident option \<Rightarrow> answer_request \<Rightarrow> analysis \<Rightarrow> store
   \<Rightarrow> (hr_answer \<times> store) option" where
  "save_main_answer hrQuestionId userId b analysis st =
     (let userAnswer = opt_or (ar_userAnswer b) []
      in case find (\<lambda>a. a_hrQuestionId a = Some hrQuestionId \<and> a_userId a = userId)
                (answers st) of
           Some existingAnswer \<Rightarrow>
             update_answer (a_id existingAnswer)
               (\<lambda>a. apply_analysis analysis
                       (a\<lparr>a_userAnswer := userAnswer, a_videoUrl := ar_videoUrl b\<rparr>)) st
         | None \<Rightarrow>
             create_answer
               (apply_analysis analysis
                  (blank_answer
                     \<lparr>a_hrQuestionId := Some hrQuestionId,
                      a_userId := userId,
                      a_userAnswer := userAnswer\<rparr>)) st)"

text \<open>The block that chooses \<open>nextQuestion\<close>: the first of the follow-up questions
  loaded with the question, or a newly generated one when there is none (\<open>null\<close> when
  the model fails or returns no text). The call to the model is the handler's second.\<close>

definition main_next_question ::
  "ai_script \<Rightarrow> hr_question \<Rightarrow> hr_followup list \<Rightarrow> store
   \<Rightarrow> hr_followup option \<times> store \<times> nat" where
  "main_next_question ai hrQuestion followUpQuestions st1 =
     (case followUpQuestions of
        f # fs \<Rightarrow> (Some f, st1, 1)
      | [] \<Rightarrow>
          (let followUpPrompt = ai 1
           in if str_truthy followUpPrompt
              then (let (nextQuestion, st2) =
                          create_followup
                            (scored_followup hrQuestion (opt_or followUpPrompt [])) st1
                    in (Some nextQuestion, st2, 2))
              else (None, st1, 2)))"

text \<open>
  \<open>processMainQuestion\<close> (\<open>POST\<close>): scores the answer to a main question, saves it, and
  returns the first follow-up question of the main question, generating one when there
  is none. The follow-up questions are those loaded with the question, before the save.
\<close>

definition processMainQuestion ::
  "ai_script \<Rightarrow> ident option \<Rightarrow> answer_request option \<Rightarrow> store \<Rightarrow> response \<times> store \<times> nat" where
  "processMainQuestion ai session reqBody st =
     (let userId = auth_userId (await (auth session))
      in if userId = None then (reply 401 (Error ''Unauthorized''), st, 0)
         else (case reqBody of
                 None \<Rightarrow> (reply 500 (Error ''An unexpected error occurred''), st, 0)
               | Some b \<Rightarrow>
                   (case ar_hrQuestionId b of
                      None \<Rightarrow> (reply 400 (Error ''Missing required fields''), st, 0)
                    | Some hrQuestionId \<Rightarrow>
                        if \<not> str_truthy (ar_userAnswer b)
                        then (reply 400 (Error ''Missing required fields''), st, 0)
                        else (case find (\<lambda>q. q_id q = hrQuestionId) (questions st) of
                                None \<Rightarrow> (reply 404 (Error ''Question not found''), st, 0)
                              | Some hrQuestion \<Rightarrow>
                                  (let analysisText = ai 0;
                                       analysis =
                                         parseAnalysisResponse analysisText
                                           (Some (num_or (q_maxScore hrQuestion) DEFAULT_MAX_SCORE))
                                   in case save_main_answer hrQuestionId userId b analysis st of
                                        None \<Rightarrow> (reply 500 (Error ''Failed to save answer''), st, 1)
                                      | Some (hrUserAnswer, st1) \<Rightarrow>
                                          (let (nextQuestion, st2, k) =
                                                 main_next_question ai hrQuestion
                                                   (followUpQuestions_of st hrQuestionId) st1
                                           in (reply 200
                                                 (MainScored hrUserAnswer analysis nextQuestion),
                                               st2, k)))))))"

text \<open>\<open>upsert({ where: { hrQuestionId }, update, create })\<close> on the answers: the row of
  the unique key is updated when there is one, and a row is created otherwise.\<close>

definition upsert_answer ::
  "ident \<Rightarrow> (hr_answer \<Rightarrow> hr_answer) \<Rightarrow> hr_answer \<Rightarrow> store \<Rightarrow> (hr_answer \<times> store) option" where
  "upsert_answer q upd new st =
     (case find (\<lambda>a. a_hrQuestionId a = Some q) (answers st) of
        Some a \<Rightarrow>
          Some (upd a,
                st\<lparr>answers :=
                      map (\<lambda>a. if a_hrQuestionId a = Some q then upd a else a) (answers st)\<rparr>)
      | None \<Rightarrow> create_answer new st)"

text \<open>The second half of \<open>processFollowUpQuestion\<close>, from the test of the follow-up
  question on; \<open>k\<close> is the number of calls to the model made so far.\<close>

definition score_followup_answer ::
  "ai_script \<Rightarrow> ident option \<Rightarrow> answer_request \<Rightarrow> hr_followup option \<Rightarrow> store \<Rightarrow> nat
   \<Rightarrow> response \<times> store \<times> nat" where
  "score_followup_answer ai userId b found st k =
     (case found of
        None \<Rightarrow>
          (reply 404 (Error ''Follow-up question not found or could not be created''), st, k)
      | Some followUpQuestion \<Rightarrow>
          (case find (\<lambda>q. q_id q = f_mainQuestionId followUpQuestion) (questions st) of
             None \<Rightarrow> (reply 500 (Error ''An unexpected error occurred''), st, k)
           | Some mainQuestion \<Rightarrow>
               (let userAnswer = opt_or (ar_userAnswer b) [];
                    videoUrl = (if str_truthy (ar_videoUrl b) then ar_videoUrl b else None);
                    analysisText = ai k;
                    analysis =
                      parseAnalysisResponse analysisText
                        (Some (num_or (f_maxScore followUpQuestion) DEFAULT_MAX_SCORE));
                    saved =
                      upsert_answer (q_id mainQuestion)
                        (\<lambda>a. apply_analysis analysis
                                (a\<lparr>a_userAnswer := userAnswer, a_videoUrl := videoUrl\<rparr>))
                        (apply_analysis analysis
                           (blank_answer
                              \<lparr>a_hrFollowUpQuestionId := Some (f_id followUpQuestion),
                               a_hrQuestionId := Some (q_id mainQuestion),
                               a_userId := userId,
                               a_userAnswer := userAnswer,
                               a_videoUrl := videoUrl\<rparr>)) st
                in case saved of
                     None \<Rightarrow> (reply 500 (Error ''Failed to save follow-up answer''), st, Suc k)
                   | Some (hrUserAnswer, st') \<Rightarrow>
                       (reply 200 (FollowUpScored hrUserAnswer analysis followUpQuestion),
                        st', Suc k))))"

text \<open>
  \<open>processFollowUpQuestion\<close> (\<open>PUT\<close>): scores the answer to a follow-up question. Given
  \<open>followUpQuestionId\<close> it answers that follow-up question; given \<open>hrQuestionId\<close> alone it
  first generates a new follow-up question of that main question and persists it.
\<close>

definition processFollowUpQuestion ::
  "ai_script \<Rightarrow> ident option \<Rightarrow> answer_request option \<Rightarrow> store \<Rightarrow> response \<times> store \<times> nat" where
  "processFollowUpQuestion ai session reqBody st =
     (let userId = auth_userId (await (auth session))
      in if userId = None then (reply 401 (Error ''Unauthorized''), st, 0)
         else (case reqBody of
                 None \<Rightarrow> (reply 500 (Error ''An unexpected error occurred''), st, 0)
               | Some b \<Rightarrow>
                   if (ar_followUpQuestionId b = None \<and> ar_hrQuestionId b = None)
                      \<or> \<not> str_truthy (ar_userAnswer b)
                   then (reply 400 (Error ''Missing required fields''), st, 0)
                   else (case ar_followUpQuestionId b of
                           Some followUpQuestionId \<Rightarrow>
                             score_followup_answer ai userId b
                               (find (\<lambda>f. f_id f = followUpQuestionId) (followups st)) st 0
                         | None \<Rightarrow>
                             (case ar_hrQuestionId b of
                                None \<Rightarrow>
                                  score_followup_answer ai userId b None st 0
                              | Some hrQuestionId \<Rightarrow>
                                  (case find (\<lambda>q. q_id q = hrQuestionId) (questions st) of
                                     None \<Rightarrow> (reply 404 (Error ''Main question not found''), st, 0)
                                   | Some mainQuestion \<Rightarrow>
                                       (let generatedFollowUpText = ai 0
                                        in if \<not> str_truthy generatedFollowUpText
                                           then (reply 500
                                                   (Error ''Failed to generate follow-up question''),
                                                 st, 1)
                                           else
                                             (let (followUpQuestion, st1) =
                                                    create_followup
                                                      (scored_followup mainQuestion
                                                         (opt_or generatedFollowUpText [])) st
                                              in score_followup_answer ai userId b
                                                   (Some followUpQuestion) st1 1)))))))"

section \<open>Requests and runs\<close>

text \<open>A request names its handler and carries what the handler takes from the caller
  and from the environment: the session, the parameters and the body, and for a handler
  that calls the model the outcomes of its calls.\<close>

datatype request =
    InterviewGET "ident option" "ident option"
  | InterviewDELETE "ident option" "ident option"
  | InterviewPOST "ident option" "fields option"
  | InterviewPATCH "ident option" "ident option" "fields option"
  | AnswersGET "ident option"
  | QuestionsGET ai_script "ident option" ident "ident option" bool
  | QuestionsPOST ai_script "ident option" ident "followup_request option"
  | HrRoundPOST ai_script "string \<Rightarrow> parsed" "ident option" "json_body option"
  | FollowupGET "ident option" "ident option" "ident option"
  | FollowupPOST "ident option" "followup_body option"
  | AnswerPOST "ident option" "answer_body option"
  | AnswerPATCH "ident option" "ident option" "fields option"
  | MainAnswerPOST ai_script "ident option" "answer_request option"
  | FollowupAnswerPUT ai_script "ident option" "answer_request option"

fun handle :: "request \<Rightarrow> store \<Rightarrow> response \<times> store" where
  "handle (InterviewGET s i) st = interview_GET s i st"
| "handle (InterviewDELETE s i) st = interview_DELETE s i st"
| "handle (InterviewPOST s b) st = interview_POST s b st"
| "handle (InterviewPATCH s i b) st = interview_PATCH s i b st"
| "handle (AnswersGET i) st = answers_GET i st"
| "handle (QuestionsGET ai s i q g) st =
     (let (r, st', k) = questions_GET ai s i q g st in (r, st'))"
| "handle (QuestionsPOST ai s i b) st =
     (let (r, st', k) = questions_POST ai s i b st in (r, st'))"
| "handle (HrRoundPOST ai p s b) st =
     (let (r, st', k) = hrRound_POST ai p s b st in (r, st'))"
| "handle (FollowupGET s f m) st = followup_GET s f m st"
| "handle (FollowupPOST s b) st = followup_POST s b st"
| "handle (AnswerPOST s b) st = answer_POST s b st"
| "handle (AnswerPATCH s a b) st = answer_PATCH s a b st"
| "handle (MainAnswerPOST ai s b) st =
     (let (r, st', k) = processMainQuestion ai s b st in (r, st'))"
| "handle (FollowupAnswerPUT ai s b) st =
     (let (r, st', k) = processFollowUpQuestion ai s b st in (r, st'))"

text \<open>The store after a sequence of requests, handled one after the other.\<close>

fun run :: "request list \<Rightarrow> store \<Rightarrow> store" where
  "run [] st = st"
| "run (r # rs) st = run rs (snd (handle r st))"

section \<open>The results page\<close>










section \<open>Invariants of the store\<close>

text \<open>What a handler leaves of the store it starts from: the users, and every interview,
  question and follow-up question, each at its place and with its fields; the answers
  keep their identifiers and their order.\<close>

definition frame :: "store \<Rightarrow> store \<Rightarrow> bool" where
  "frame st st' \<longleftrightarrow>
     users st' = users st
     \<and> prefix (interviews st) (interviews st')
     \<and> prefix (questions st) (questions st')
     \<and> prefix (followups st) (followups st')
     \<and> prefix (map a_id (answers st)) (map a_id (answers st'))"

text \<open>The keys of the answers: the follow-up questions have distinct identifiers that
  the store has already issued, no two answers share a main question, and an answer to
  a follow-up question carries the main question of that follow-up question.\<close>

definition answer_keys_ok :: "store \<Rightarrow> bool" where
  "answer_keys_ok st \<longleftrightarrow>
     distinct (map f_id (followups st))
     \<and> (\<forall>f \<in> set (followups st). f_id f < next_id st)
     \<and> (\<forall>q. length (filter (\<lambda>a. a_hrQuestionId a = Some q) (answers st)) \<le> 1)
     \<and> (\<forall>a \<in> set (answers st). \<forall>f. a_hrFollowUpQuestionId a = Some f \<longrightarrow>
           (\<exists>fu \<in> set (followups st).
              f_id fu = f \<and> a_hrQuestionId a = Some (f_mainQuestionId fu)))"

text \<open>An answer row is saved with a text and an analysis: the row is in the store and
  holds the text and the five fields of the analysis.\<close>

definition answer_saved :: "hr_answer \<Rightarrow> string \<Rightarrow> analysis \<Rightarrow> store \<Rightarrow> bool" where
  "answer_saved ans userAnswer an st \<longleftrightarrow>
     ans \<in> set (answers st)
     \<and> a_userAnswer ans = userAnswer
     \<and> a_score ans = Some (score an)
     \<and> a_evaluationFeedback ans = Some (evaluationFeedback an)
     \<and> a_matchedKeyPoints ans = matchedKeyPoints an
     \<and> a_voiceTone ans = voiceTone an
     \<and> a_confidence ans = confidence an"

text \<open>The analysis of an answer whose scoring failed.\<close>

definition default_analysis :: "int \<Rightarrow> analysis" where
  "default_analysis maxScore =
     \<lparr>score = maxScore div 2, evaluationFeedback = ''Unable to generate detailed analysis.'',
      matchedKeyPoints = [], voiceTone = None, confidence = None\<rparr>"

definition cap_ok :: "store \<Rightarrow> bool" where
  "cap_ok st \<longleftrightarrow> (\<forall>q. length (followUpQuestions_of st q) \<le> MAX_FOLLOWUP_QUESTIONS)"

section \<open>Sample stores and requests\<close>

definition first_store :: store where
  "first_store = empty_store\<lparr>users := [\<lparr>u_id = 1, u_resume = Some ''cv.pdf''\<rparr>]\<rparr>"

definition sample_interview :: hr_interview where
  "sample_interview =
     \<lparr>i_id = 0, i_userId = Some 1, i_jobPosition = Some (JStr ''Engineer''),
      i_jobDescription = Some (JStr ''Builds things''),
      i_jobExperience = Some (JStr ''3''), i_skills = Some (JArr []),
      i_difficultyLevel = Some (JStr ''easy''), i_resumeUrl = None,
      i_passScore = None, i_totalScore = None\<rparr>"

definition sample_question :: hr_question where
  "sample_question =
     \<lparr>q_id = 1, q_hrInterviewId = 0, q_text = ''Why us?'', q_category = ''General'',
      q_expectedKeyPoints = [], q_maxScore = 10, q_timeLimit = 120\<rparr>"

definition sample_followup :: hr_followup where
  "sample_followup =
     \<lparr>f_id = 2, f_mainQuestionId = 1, f_text = ''Why now?'', f_category = ''General'',
      f_expectedKeyPoints = [], f_maxScore = 5, f_timeLimit = Some 90\<rparr>"

definition sample_store :: store where
  "sample_store =
     \<lparr>users = [\<lparr>u_id = 1, u_resume = Some ''cv.pdf''\<rparr>],
      interviews = [sample_interview],
      questions = [sample_question],
      followups = [sample_followup],
      answers = [],
      next_id = 3\<rparr>"

definition bare_store :: store where
  "bare_store = sample_store\<lparr>followups := []\<rparr>"

definition generation_only :: ai_script where
  "generation_only k = (if k = 0 then Some ''Why now?'' else None)"

definition sample_answer :: answer_request where
  "sample_answer =
     \<lparr>ar_hrQuestionId = Some 1, ar_followUpQuestionId = None,
      ar_userAnswer = Some ''I like the product'', ar_videoUrl = None\<rparr>"

definition sample_followup_answer :: answer_request where
  "sample_followup_answer =
     \<lparr>ar_hrQuestionId = None, ar_followUpQuestionId = Some 2,
      ar_userAnswer = Some ''The timing is right'', ar_videoUrl = None\<rparr>"

definition stored_answer :: hr_answer where
  "stored_answer =
     \<lparr>a_id = 3, a_hrQuestionId = Some 1, a_hrFollowUpQuestionId = None,
      a_userId = Some 1, a_userAnswer = ''I like the product'',
      a_videoUrl = None, a_score = Some 5,
      a_evaluationFeedback = Some ''Unable to generate detailed analysis.'',
      a_matchedKeyPoints = [], a_voiceTone = None, a_confidence = None\<rparr>"

definition answered_store :: store where
  "answered_store = sample_store\<lparr>answers := [stored_answer], next_id := 4\<rparr>"

definition sample_followup_request :: followup_request where
  "sample_followup_request =
     \<lparr>r_questionId = Some 1, r_userAnswer = Some ''I like the product''\<rparr>"

definition no_fields :: fields where
  "no_fields = (\<lambda>k. None)"

definition sample_fields :: fields where
  "sample_fields k =
     (if k = ''jobPosition'' then Some (JStr ''Engineer'')
      else if k = ''jobDescription'' then Some (JStr ''Builds things'')
      else if k = ''jobExperience'' then Some (JNum 3)
      else if k = ''difficultyLevel'' then Some (JStr ''easy'')
      else if k = ''totalQuestions'' then Some (JNum 1)
      else None)"

definition one_question :: "gen_question list" where
  "one_question =
     [\<lparr>gq_text = ''Why us?'', gq_category = None, gq_expectedKeyPoints = None,
       gq_maxScore = None, gq_timeLimit = None, gq_followUpQuestions = None\<rparr>]"

definition create_request :: request where
  "create_request =
     HrRoundPOST (\<lambda>k. Some ''{}'') (\<lambda>t. Parsed (Some one_question)) (Some 1)
       (Some (ObjectBody sample_fields))"

definition put_request :: request where
  "put_request =
     FollowupAnswerPUT (\<lambda>k. Some ''Tell me more'') (Some 1)
       (Some \<lparr>ar_hrQuestionId = Some 1, ar_followUpQuestionId = None,
              ar_userAnswer = Some ''Because'', ar_videoUrl = None\<rparr>)"







section \<open>Properties of the rounding\<close>

lemma expo_le:
  assumes "0 < x"
  shows "2 powi (expo x) \<le> x"
proof -
  obtain a b where q: "quotient_of x = (a, b)" by fastforce
  then have b: "0 < b" and x: "x = of_int a / of_int b"
    using quotient_of_denom_pos quotient_of_div by blast+
  with assms have a: "0 < a"
    by (simp add: zero_less_divide_iff)
  let ?e0 = "bitlen a - bitlen b"
  show ?thesis
  proof (cases "(2::rat) powi ?e0 \<le> x")
    case True
    then show ?thesis by (simp add: expo_def q)
  next
    case False
    then have e: "expo x = ?e0 - 1" by (simp add: expo_def q)
    have pos: "1 \<le> bitlen c" if "0 < c" for c
    proof (rule ccontr)
      assume "\<not> 1 \<le> bitlen c"
      then have "nat (bitlen c) = 0" by simp
      with bitlen_bounds[OF that] have "c < 1" by simp
      with that show False by simp
    qed
    have la: "1 \<le> bitlen a" and lb: "1 \<le> bitlen b"
      using a b by (simp_all add: pos)
    from bitlen_bounds[OF a] have "(2::int) ^ nat (bitlen a - 1) \<le> a" by simp
    then have 1: "(2::rat) ^ nat (bitlen a - 1) \<le> of_int a"
      by (metis of_int_le_iff of_int_numeral of_int_power)
    from bitlen_bounds[OF b] have "b \<le> (2::int) ^ nat (bitlen b)" by simp
    then have 2: "of_int b \<le> (2::rat) ^ nat (bitlen b)"
      by (metis of_int_le_iff of_int_numeral of_int_power)
    have ee: "?e0 - 1 = (bitlen a - 1) - bitlen b" by simp
    have "(2::rat) powi (?e0 - 1) = 2 powi ((bitlen a - 1) - bitlen b)"
      by (subst ee) (rule refl)
    also have "\<dots> = 2 powi (bitlen a - 1) / 2 powi (bitlen b)"
      by (rule power_int_diff) simp
    also have "\<dots> = 2 ^ nat (bitlen a - 1) / 2 ^ nat (bitlen b)"
      using la lb by (simp add: power_int_def)
    also have "\<dots> \<le> of_int a / of_int b"
      using 1 2 a b by (intro frac_le) simp_all
    finally show ?thesis using e x by simp
  qed
qed

lemma round_half_even_of_int: "round_half_even (of_int k) = k"
  by (simp add: round_half_even_def)

lemma round_half_even_nonneg: "0 \<le> y \<Longrightarrow> 0 \<le> round_half_even y"
  by (auto simp: round_half_even_def Let_def)

lemma double_of_nonneg: "0 \<le> x \<Longrightarrow> 0 \<le> double_of x"
  by (simp add: double_of_def Let_def round_half_even_nonneg)

text \<open>An integer below \<open>2^53\<close> is a double.\<close>

lemma double_of_exact:
  assumes "0 \<le> n" "n < 2 ^ 53"
  shows "double_of (of_int n) = of_int n"
proof (cases "n = 0")
  case True
  then show ?thesis by (simp add: double_of_def)
next
  case False
  with assms have pos: "0 < (of_int n :: rat)" by simp
  let ?e = "expo (of_int n)"
  have "(2::rat) powi ?e \<le> of_int n" using expo_le[OF pos] .
  also have "(of_int n :: rat) < 2 ^ 53" using assms(2)
    by (metis of_int_less_iff of_int_numeral of_int_power)
  finally have "(2::rat) powi ?e < 2 powi 53" by simp
  then have "?e < 53"
    by (rule power_int_le_imp_less_exp[rotated]) simp_all
  then have e: "?e \<le> 52" by simp
  define k where "k = nat (52 - ?e)"
  have u: "(2::rat) powi (?e - 52) = 1 / 2 ^ k"
    using e by (simp add: k_def power_int_def field_simps)
  have "of_int n / (2 powi (?e - 52)) = (of_int (n * 2 ^ k) :: rat)"
    by (simp add: u)
  then have "round_half_even (of_int n / (2 powi (?e - 52))) = n * 2 ^ k"
    by (simp only: round_half_even_of_int)
  then show ?thesis
    using False pos by (simp add: double_of_def Let_def u)
qed

lemma double_of_small_expo:
  assumes "0 < n" "expo (of_int n) \<le> 52"
  shows "double_of (of_int n) = of_int n"
proof -
  let ?e = "expo (of_int n)"
  define k where "k = nat (52 - ?e)"
  have u: "(2::rat) powi (?e - 52) = 1 / 2 ^ k"
    using assms(2) by (simp add: k_def power_int_def field_simps)
  have "of_int n / (2 powi (?e - 52)) = (of_int (n * 2 ^ k) :: rat)"
    by (simp add: u)
  then have "round_half_even (of_int n / (2 powi (?e - 52))) = n * 2 ^ k"
    by (simp only: round_half_even_of_int)
  then show ?thesis
    using assms(1) by (simp add: double_of_def Let_def u)
qed

lemma round_half_even_ge_floor: "\<lfloor>y\<rfloor> \<le> round_half_even y"
  by (simp add: round_half_even_def Let_def)

text \<open>Rounding keeps an integer of \<open>2^53\<close> or more at \<open>2^53\<close> or more.\<close>

lemma double_of_large:
  assumes "2 ^ 53 \<le> n"
  shows "2 ^ 53 \<le> double_of (of_int n)"
proof -
  have n: "0 < n" using assms by (smt (verit) zero_less_power)
  then have pos: "0 < (of_int n :: rat)" by simp
  have big: "(2::rat) ^ 53 \<le> of_int n" using assms
    by (metis of_int_le_iff of_int_numeral of_int_power)
  let ?e = "expo (of_int n)"
  show ?thesis
  proof (cases "?e \<le> 52")
    case True
    from double_of_small_expo[OF n True] big show ?thesis by simp
  next
    case False
    then have e: "53 \<le> ?e" by simp
    let ?u = "(2::rat) powi (?e - 52)"
    have upos: "0 < ?u" by simp
    have "(2::rat) powi ?e \<le> of_int n" using expo_le[OF pos] .
    then have "(2::rat) powi ?e / ?u \<le> of_int n / ?u"
      using upos by (simp add: divide_right_mono)
    moreover have "(2::rat) powi ?e / ?u = 2 ^ 52"
    proof -
      have "(2::rat) powi ?e / ?u = 2 powi (?e - (?e - 52))"
        by (rule power_int_diff[symmetric]) simp
      then show ?thesis by simp
    qed
    ultimately have "(of_int (2 ^ 52) :: rat) \<le> of_int n / ?u" by simp
    then have "(2::int) ^ 52 \<le> \<lfloor>of_int n / ?u\<rfloor>" by (simp only: le_floor_iff)
    then have k: "(2::int) ^ 52 \<le> round_half_even (of_int n / ?u)"
      using round_half_even_ge_floor[of "of_int n / ?u"] by linarith
    have k': "(2::rat) ^ 52 \<le> of_int (round_half_even (of_int n / ?u))"
      using k by (metis of_int_le_iff of_int_numeral of_int_power)
    have "(2::rat) powi 53 \<le> 2 powi ?e"
      using e by (intro power_int_increasing) simp_all
    then have "(2::rat) ^ 53 \<le> 2 powi ?e" by simp
    also have "(2::rat) powi ?e = 2 ^ 52 * ?u"
    proof -
      have "(2::rat) powi 52 * 2 powi (?e - 52) = 2 powi (52 + (?e - 52))"
        by (rule power_int_add[symmetric]) simp
      then show ?thesis by simp
    qed
    also have "\<dots> \<le> of_int (round_half_even (of_int n / ?u)) * ?u"
      using k' upos by (intro mult_right_mono) simp_all
    also have "\<dots> = double_of (of_int n)"
      using pos by (simp add: double_of_def Let_def)
    finally show ?thesis .
  qed
qed

section \<open>Properties of the scoring parser\<close>

lemma leftmost_SomeD: "leftmost m s = Some x \<Longrightarrow> \<exists>u. suffix u s \<and> m u = Some x"
proof (induction s)
  case Nil
  then show ?case by auto
next
  case (Cons c cs)
  show ?case
  proof (cases "m (c # cs)")
    case None
    with Cons.prems have "leftmost m cs = Some x" by simp
    from Cons.IH[OF this] obtain u where "suffix u cs" "m u = Some x" by blast
    then show ?thesis by (auto intro: suffix_ConsI)
  next
    case (Some y)
    with Cons.prems have "y = x" by simp
    with Some show ?thesis by auto
  qed
qed

lemma leftmost_None_iff: "leftmost m s = None \<longleftrightarrow> (\<forall>u. suffix u s \<longrightarrow> m u = None)"
proof (induction s)
  case Nil
  then show ?case by simp
next
  case (Cons c cs)
  then show ?case by (auto simp: suffix_Cons split: option.splits)
qed

lemma digits_value_aux:
  "\<forall>c\<in>set d. is_digit c \<Longrightarrow> 0 \<le> n \<Longrightarrow>
   0 \<le> foldl (\<lambda>n c. 10 * n + (int (of_char c) - 48)) n d"
proof (induction d arbitrary: n)
  case Nil
  then show ?case by simp
next
  case (Cons c d)
  have "is_digit c" using Cons.prems by simp
  then have "0 \<le> 10 * n + (int (of_char c) - 48)"
    using Cons.prems(2) by (simp add: is_digit_def)
  then show ?case using Cons by simp
qed

lemma digits_value_nonneg: "\<forall>c\<in>set d. is_digit c \<Longrightarrow> 0 \<le> digits_value d"
  unfolding digits_value_def by (rule digits_value_aux) simp_all

lemma parseInt_nonneg:
  "\<forall>c\<in>set d. is_digit c \<Longrightarrow> parseInt d = Finite k \<Longrightarrow> 0 \<le> k"
  by (auto simp: parseInt_def Let_def double_of_nonneg digits_value_nonneg split: if_splits)

lemma digits_value_snoc:
  "digits_value (d @ [c]) = 10 * digits_value d + (int (of_char c) - 48)"
  by (simp add: digits_value_def)

lemma digit_char: "n < 10 \<Longrightarrow> (of_char (char_of (48 + n :: nat)) :: nat) = 48 + n"
  by simp

lemma digits_value_decimal: "digits_value (decimal n) = int n"
proof (induction n rule: decimal.induct)
  case (1 n)
  show ?case
  proof (cases "n < 10")
    case True
    then show ?thesis
      by (subst decimal.simps) (simp add: digits_value_def)
  next
    case False
    have m: "n mod 10 < 10" by simp
    from False 1 have "digits_value (decimal (n div 10)) = int (n div 10)" by simp
    with False show ?thesis
      by (subst decimal.simps) (simp add: digits_value_snoc digit_char[OF m] zdiv_int zmod_int)
  qed
qed

lemma decimal_digits: "c \<in> set (decimal n) \<Longrightarrow> is_digit c"
proof (induction n rule: decimal.induct)
  case (1 n)
  show ?case
  proof (cases "n < 10")
    case True
    with 1(2) show ?thesis
      by (subst (asm) decimal.simps) (simp add: is_digit_def)
  next
    case False
    have m: "n mod 10 < 10" by simp
    from False 1 show ?thesis
      by (subst (asm) (2) decimal.simps) (auto simp: is_digit_def digit_char[OF m])
  qed
qed

lemma decimal_nonempty: "decimal n \<noteq> []"
  by (subst decimal.simps) simp

lemma parseInt_decimal:
  assumes "n < 2 ^ 53"
  shows "parseInt (decimal n) = Finite (int n)"
proof -
  have "int n < 2 ^ 53" using assms
    by (metis of_nat_less_iff of_nat_numeral of_nat_power)
  then have "double_of (of_int (int n)) = of_int (int n)"
    by (intro double_of_exact) simp_all
  then have d: "double_of (of_nat n) = of_nat n" by simp
  have "(of_nat n :: rat) < 2 ^ 53" using assms
    by (metis of_nat_less_iff of_nat_numeral of_nat_power)
  also have "\<dots> < 2 ^ 1024" by simp
  finally have "\<not> (2 ^ 1024 \<le> (of_nat n :: rat))" by simp
  then show ?thesis
    by (simp add: parseInt_def digits_value_decimal d Let_def)
qed

lemma digit_not_space: "is_digit c \<Longrightarrow> \<not> is_space c"
  by (auto simp: is_digit_def is_space_def)

lemma tail_digits_leading:
  assumes "\<forall>c \<in> set ws. is_space c" "d \<noteq> []" "\<forall>c \<in> set d. is_digit c"
    "rest = [] \<or> \<not> is_digit (hd rest)"
  shows "tail_digits (ws @ d @ rest) = Some d"
proof -
  obtain c cs where d: "d = c # cs" using assms(2) by (cases d) auto
  then have "\<not> is_space c" using assms(3) by (simp add: digit_not_space)
  then have 1: "dropWhile is_space (ws @ d @ rest) = d @ rest"
    using assms(1) d by (simp add: dropWhile_append)
  have 2: "takeWhile is_digit (d @ rest) = d"
    using assms(3,4) by (cases rest) (simp_all add: takeWhile_append2)
  show ?thesis using assms(2) by (simp add: tail_digits_def 1 2)
qed

lemma re_score_leading:
  assumes "\<forall>c \<in> set ws. is_space c" "d \<noteq> []" "\<forall>c \<in> set d. is_digit c"
    "rest = [] \<or> \<not> is_digit (hd rest)"
  shows "re_score (''Score:'' @ ws @ d @ rest) = Some d"
  using tail_digits_leading[OF assms]
  by (simp add: re_score_def re_match_def)

lemma tail_digits_digits:
  "tail_digits r = Some d \<Longrightarrow> d \<noteq> [] \<and> (\<forall>c\<in>set d. is_digit c)"
  by (auto simp: tail_digits_def Let_def split: if_splits dest: set_takeWhileD)

lemma re_score_digits:
  "re_score t = Some d \<Longrightarrow> d \<noteq> [] \<and> (\<forall>c\<in>set d. is_digit c)"
  unfolding re_score_def re_match_def
  by (drule leftmost_SomeD) (auto split: option.splits dest: tail_digits_digits)

text \<open>A pattern whose literal occurs nowhere in the text, in either case, has no match.\<close>

lemma re_match_absent:
  "(\<forall>u. suffix u s \<longrightarrow> strip_prefix_ci lit u = None) \<Longrightarrow> re_match lit tail s = None"
  by (simp add: re_match_def leftmost_None_iff)

text \<open>
  Claim C5. For every \<open>maxScore\<close>, \<open>parseAnalysisResponse\<close> returns the documented defaults:
  on the text \<open>null\<close> (and on the empty text, which is falsy too) the score is
  \<open>floor(maxScore / 2)\<close>, the feedback the fixed message for a missing analysis, the key
  points the empty list, voice tone and confidence \<open>null\<close>; on a text in which the pattern
  of a field has no match, that field has its default: the score \<open>floor(maxScore / 2)\<close>, the
  feedback the fixed message for missing feedback, the key points the empty list, voice
  tone and confidence \<open>null\<close>.
\<close>

theorem parseAnalysisResponse_defaults:
  "parseAnalysisResponse None (Some m) =
     \<lparr>score = m div 2, evaluationFeedback = ''Unable to generate detailed analysis.'',
      matchedKeyPoints = [], voiceTone = None, confidence = None\<rparr>
   \<and> parseAnalysisResponse (Some []) (Some m) = parseAnalysisResponse None (Some m)
   \<and> (re_score t = None \<longrightarrow> score (parseAnalysisResponse (Some t) (Some m)) = m div 2)
   \<and> (t \<noteq> [] \<and> re_feedback t = None \<longrightarrow>
        evaluationFeedback (parseAnalysisResponse (Some t) (Some m)) =
          ''No specific feedback provided.'')
   \<and> (re_keypoints t = None \<longrightarrow>
        matchedKeyPoints (parseAnalysisResponse (Some t) (Some m)) = [])
   \<and> (re_voicetone t = None \<longrightarrow> voiceTone (parseAnalysisResponse (Some t) (Some m)) = None)
   \<and> (re_confidence t = None \<longrightarrow>
        confidence (parseAnalysisResponse (Some t) (Some m)) = None)"
  by (simp add: parseAnalysisResponse_def)

theorem parseAnalysisResponse_defaults_witness:
  "re_score ''Good answer, score 7'' = None
   \<and> ''Good answer, score 7'' \<noteq> [] \<and> re_feedback ''Good answer, score 7'' = None
   \<and> re_keypoints ''Good answer, score 7'' = None
   \<and> re_voicetone ''Good answer, score 7'' = None
   \<and> re_confidence ''Good answer, score 7'' = None
   \<and> parseAnalysisResponse (Some ''Good answer, score 7'') (Some 9) =
       \<lparr>score = 4, evaluationFeedback = ''No specific feedback provided.'',
        matchedKeyPoints = [], voiceTone = None, confidence = None\<rparr>"
proof -
  have e: "re_score ''Good answer, score 7'' = None"
    "re_feedback ''Good answer, score 7'' = None"
    "re_keypoints ''Good answer, score 7'' = None"
    "re_voicetone ''Good answer, score 7'' = None"
    "re_confidence ''Good answer, score 7'' = None"
    by code_simp+
  have n: "''Good answer, score 7'' \<noteq> []" by simp
  have "parseAnalysisResponse (Some ''Good answer, score 7'') (Some 9) =
       \<lparr>score = 4, evaluationFeedback = ''No specific feedback provided.'',
        matchedKeyPoints = [], voiceTone = None, confidence = None\<rparr>"
    using parseAnalysisResponse_defaults [of 9 "''Good answer, score 7''"] e n
    by (intro analysis.equality) simp_all
  with e n show ?thesis by blast
qed

lemma Math_min_parseInt:
  assumes "\<forall>c\<in>set d. is_digit c" "m \<le> 2 ^ 53"
  shows "Math_min (parseInt d) m = min (digits_value d) m"
proof (cases "digits_value d < 2 ^ 53")
  case True
  have "0 \<le> digits_value d" using assms(1) by (rule digits_value_nonneg)
  then have x: "double_of (of_int (digits_value d)) = of_int (digits_value d)"
    using True by (rule double_of_exact)
  have "(of_int (digits_value d) :: rat) < 2 ^ 53" using True
    by (metis of_int_less_iff of_int_numeral of_int_power)
  also have "\<dots> < 2 ^ 1024" by simp
  finally have "\<not> (2 ^ 1024 \<le> (of_int (digits_value d) :: rat))" by simp
  then show ?thesis by (simp add: parseInt_def Let_def x)
next
  case False
  then have big: "2 ^ 53 \<le> digits_value d" by simp
  from double_of_large[OF big]
  have "(of_int (2 ^ 53) :: rat) \<le> double_of (of_int (digits_value d))" by simp
  then have "(2::int) ^ 53 \<le> \<lfloor>double_of (of_int (digits_value d))\<rfloor>"
    by (simp only: le_floor_iff)
  with assms(2) have "m \<le> \<lfloor>double_of (of_int (digits_value d))\<rfloor>" by linarith
  then have f: "min \<lfloor>double_of (of_int (digits_value d))\<rfloor> m = m"
    by (rule min_absorb2)
  have g: "min (digits_value d) m = m" using assms(2) big by linarith
  show ?thesis
    by (simp add: parseInt_def Let_def f g)
qed

lemma re_score_empty: "re_score [] = None"
  by (simp add: re_score_def re_match_def)

lemma Math_min_bounds:
  "0 \<le> m \<Longrightarrow> (\<And>k. x = Finite k \<Longrightarrow> 0 \<le> k) \<Longrightarrow> 0 \<le> Math_min x m \<and> Math_min x m \<le> m"
  by (cases x) simp_all

lemma score_matched:
  assumes "re_score s = Some d"
  shows "score (parseAnalysisResponse (Some s) (Some m)) = Math_min (parseInt d) m"
proof -
  from assms have "s \<noteq> []" using re_score_empty by auto
  with assms show ?thesis by (simp add: parseAnalysisResponse_def)
qed

text \<open>
  Claim C10. For every non-negative integer \<open>maxScore\<close> and every analysis text, \<open>null\<close>
  included, the score returned by \<open>parseAnalysisResponse\<close> is an integer between 0 and
  \<open>maxScore\<close>. The default, on \<open>null\<close> and on a text without a match of the score pattern,
  is \<open>floor(maxScore / 2)\<close>. A parsed score is capped by \<open>min\<close>: on a match with the digits
  \<open>d\<close> the score is \<open>Math.min(parseInt(d), maxScore)\<close>, which for a \<open>maxScore\<close> up to \<open>2^53\<close> is
  the minimum of \<open>maxScore\<close> and the integer the digits write, however many digits there
  are; and for a text that starts with \<open>Score:\<close>, white space and the decimal digits of a
  number \<open>n\<close> below \<open>2^53\<close> it is the minimum of \<open>n\<close> and \<open>maxScore\<close>.
\<close>

theorem parseAnalysisResponse_score_bounds:
  assumes "0 \<le> m"
  shows "0 \<le> score (parseAnalysisResponse t (Some m))
       \<and> score (parseAnalysisResponse t (Some m)) \<le> m
       \<and> score (parseAnalysisResponse None (Some m)) = m div 2
       \<and> (re_score s = None \<longrightarrow> score (parseAnalysisResponse (Some s) (Some m)) = m div 2)
       \<and> (re_score s = Some d \<longrightarrow>
            score (parseAnalysisResponse (Some s) (Some m)) = Math_min (parseInt d) m)
       \<and> (m \<le> 2 ^ 53 \<and> re_score s = Some d \<longrightarrow>
            score (parseAnalysisResponse (Some s) (Some m)) = min (digits_value d) m)
       \<and> ((\<forall>c \<in> set ws. is_space c) \<and> n < 2 ^ 53 \<and> (rest = [] \<or> \<not> is_digit (hd rest)) \<longrightarrow>
            score (parseAnalysisResponse (Some (''Score:'' @ ws @ decimal n @ rest)) (Some m))
              = min (int n) m)"
proof -
  have range: "0 \<le> score (parseAnalysisResponse t (Some m))
       \<and> score (parseAnalysisResponse t (Some m)) \<le> m"
  proof (cases "re_score (case t of None \<Rightarrow> [] | Some s \<Rightarrow> s)")
    case None
    with assms show ?thesis
      by (auto simp: parseAnalysisResponse_def split: option.splits)
  next
    case (Some d)
    then obtain s where t: "t = Some s" and s: "re_score s = Some d"
      by (cases t) (simp_all add: re_score_empty)
    have "\<forall>c\<in>set d. is_digit c" using s by (auto dest: re_score_digits)
    then have "0 \<le> Math_min (parseInt d) m \<and> Math_min (parseInt d) m \<le> m"
      using assms by (intro Math_min_bounds) (auto dest: parseInt_nonneg)
    then show ?thesis by (simp add: t score_matched[OF s])
  qed
  have dflt: "score (parseAnalysisResponse None (Some m)) = m div 2"
    "re_score s = None \<longrightarrow> score (parseAnalysisResponse (Some s) (Some m)) = m div 2"
    by (simp_all add: parseAnalysisResponse_def)
  have cap: "score (parseAnalysisResponse (Some (''Score:'' @ ws @ decimal n @ rest)) (Some m))
              = min (int n) m"
    if "\<forall>c \<in> set ws. is_space c" "n < 2 ^ 53" "rest = [] \<or> \<not> is_digit (hd rest)"
  proof -
    have "re_score (''Score:'' @ ws @ decimal n @ rest) = Some (decimal n)"
      using that(1,3) by (intro re_score_leading) (simp_all add: decimal_nonempty decimal_digits)
    from score_matched[OF this] show ?thesis
      by (simp add: parseInt_decimal[OF that(2)])
  qed
  have exact: "score (parseAnalysisResponse (Some s) (Some m)) = min (digits_value d) m"
    if "m \<le> 2 ^ 53" "re_score s = Some d"
  proof -
    have "\<forall>c\<in>set d. is_digit c" using that(2) by (auto dest: re_score_digits)
    from Math_min_parseInt[OF this that(1)] score_matched[OF that(2)] show ?thesis by simp
  qed
  from range dflt cap exact score_matched show ?thesis by blast
qed

theorem parseAnalysisResponse_score_bounds_witness:
  "(0::int) \<le> 10
   \<and> re_score ''Good answer'' = None
   \<and> score (parseAnalysisResponse (Some ''Good answer'') (Some 10)) = 5
   \<and> re_score ''Score: 12'' = Some ''12'' \<and> parseInt ''12'' = Finite 12
   \<and> score (parseAnalysisResponse (Some ''Score: 12'') (Some 10)) = 10
   \<and> (10::int) \<le> 2 ^ 53
   \<and> re_score ''score:99999999999999999999999 of 10'' = Some ''99999999999999999999999''
   \<and> digits_value ''99999999999999999999999'' = 99999999999999999999999
   \<and> score (parseAnalysisResponse (Some ''score:99999999999999999999999 of 10'') (Some 10)) = 10
   \<and> is_space CHR '' '' \<and> (7::nat) < 2 ^ 53 \<and> \<not> is_digit (hd ''/10'') \<and> decimal 7 = ''7''
   \<and> score (parseAnalysisResponse (Some ''Score: 7/10'') (Some 10)) = 7
   \<and> (0::int) \<le> 2 ^ 60
   \<and> re_score ''Score: 9007199254740993'' = Some ''9007199254740993''
   \<and> parseInt ''9007199254740993'' = Finite 9007199254740992
   \<and> score (parseAnalysisResponse (Some ''Score: 9007199254740993'') (Some (2 ^ 60)))
       = 9007199254740992"
proof -
  have e: "re_score ''Good answer'' = None"
    "re_score ''Score: 12'' = Some ''12''" "parseInt ''12'' = Finite 12"
    "is_space CHR '' ''" "\<not> is_digit (hd ''/10'')" "decimal 7 = ''7''"
    "re_score ''Score: 9007199254740993'' = Some ''9007199254740993''"
    "parseInt ''9007199254740993'' = Finite 9007199254740992"
    "re_score ''score:99999999999999999999999 of 10'' = Some ''99999999999999999999999''"
    "digits_value ''99999999999999999999999'' = 99999999999999999999999"
    by code_simp+
  have n: "(0::int) \<le> 10" "(7::nat) < 2 ^ 53" "(0::int) \<le> 2 ^ 60" "(10::int) \<le> 2 ^ 53"
    by simp_all
  note D = parseAnalysisResponse_score_bounds
      [OF n(1), of "Some ''Score: 12''" "''score:99999999999999999999999 of 10''"
         "''99999999999999999999999''" "'' ''" 7 "''/10''"]
  from D n(4) e(9,10)
  have f: "score (parseAnalysisResponse (Some ''score:99999999999999999999999 of 10'')
                    (Some 10)) = 10"
    by simp
  note A = parseAnalysisResponse_score_bounds
      [OF n(1), of "Some ''Score: 12''" "''Good answer''" "''12''" "'' ''" 7 "''/10''"]
  note B = parseAnalysisResponse_score_bounds
      [OF n(1), of "Some ''Score: 12''" "''Score: 12''" "''12''" "'' ''" 7 "''/10''"]
  note C = parseAnalysisResponse_score_bounds
      [OF n(3), of "Some ''Score: 12''" "''Score: 9007199254740993''" "''9007199254740993''"
         "'' ''" 7 "''/10''"]
  from A e(1) have a: "score (parseAnalysisResponse (Some ''Good answer'') (Some 10)) = 5"
    by simp
  from B e(2,3) have b: "score (parseAnalysisResponse (Some ''Score: 12'') (Some 10)) = 10"
    by simp
  from A e(4,5) n(2)
  have "score (parseAnalysisResponse (Some (''Score:'' @ '' '' @ decimal 7 @ ''/10'')) (Some 10))
          = min (int 7) 10"
    by simp
  then have c: "score (parseAnalysisResponse (Some ''Score: 7/10'') (Some 10)) = 7"
    by (simp add: e(6))
  from C e(7,8)
  have d: "score (parseAnalysisResponse (Some ''Score: 9007199254740993'') (Some (2 ^ 60)))
       = 9007199254740992"
    by simp
  show ?thesis using e n a b c d f by blast
qed


section \<open>Properties of the handlers\<close>

lemma find_Some_set: "find P xs = Some x \<Longrightarrow> x \<in> set xs \<and> P x"
  by (induction xs) (auto split: if_splits)

lemma filter_nonempty: "\<exists>x \<in> set xs. P x \<Longrightarrow> filter P xs \<noteq> []"
  by (induction xs) auto

lemma find_owned_None:
  "\<forall>i \<in> set xs. i_id i = iid \<longrightarrow> i_userId i \<noteq> u \<Longrightarrow>
   find (\<lambda>i. i_id i = iid \<and> i_userId i = u) xs = None"
  by (induction xs) auto

subsection \<open>Handlers that do not await the session\<close>

text \<open>
  Claim C9. Whatever the session of the caller, the parameters, the body and the store,
  each of the four handlers that destructure the result of \<open>auth()\<close> without awaiting it
  (the interview \<open>DELETE\<close> and \<open>POST\<close>, the follow-up creation \<open>POST\<close> and the answer \<open>PATCH\<close>)
  answers status 401 with the body Unauthorized and leaves the store unchanged.
\<close>

theorem unawaited_auth_unauthorized:
  "interview_DELETE session interviewId st = (reply 401 (Error ''Unauthorized''), st)
   \<and> interview_POST session ibody st = (reply 401 (Error ''Unauthorized''), st)
   \<and> followup_POST session fbody st = (reply 401 (Error ''Unauthorized''), st)
   \<and> answer_PATCH session answerId pbody st = (reply 401 (Error ''Unauthorized''), st)"
  by (simp add: interview_DELETE_def interview_POST_def followup_POST_def answer_PATCH_def
      promise_userId_def)

subsection \<open>Interview creation with missing fields\<close>

text \<open>
  Claim C8, as stated, fails: a creation request without its required fields that comes
  without a session is answered 401, not 400.
\<close>

theorem missing_fields_counterexample:
  "hrRound_POST (\<lambda>k. None) (\<lambda>t. ParseError) None (Some (ObjectBody no_fields)) sample_store =
     (reply 401 (Error ''Unauthorized''), sample_store, 0)"
  by (simp add: hrRound_POST_def auth_def)

text \<open>
  Claim C8, amended. For every interview-creation \<open>POST\<close> whose body is a JSON object
  that lacks a required field (the field is absent or falsy), nothing is persisted, the
  model is not called, and the handler answers 401, Unauthorized, to a caller without a
  session; 400, No resume found, to a signed-in caller without a user row; and 400,
  Missing required fields, with the list of the missing fields, to a signed-in caller
  with a user row. For a body that is the JSON value \<open>null\<close> or that cannot be read,
  nothing is persisted and the model is not called either.
\<close>

theorem missing_fields_rejected:
  assumes "\<exists>f \<in> set requiredFields. \<not> truthy (b f)"
  shows "hrRound_POST ai parse None (Some (ObjectBody b)) st =
           (reply 401 (Error ''Unauthorized''), st, 0)
       \<and> (find (\<lambda>x. u_id x = u) (users st) = None \<longrightarrow>
            hrRound_POST ai parse (Some u) (Some (ObjectBody b)) st =
              (reply 400 (Error ''No resume found''), st, 0))
       \<and> (find (\<lambda>x. u_id x = w) (users st) = Some row \<longrightarrow>
            hrRound_POST ai parse (Some w) (Some (ObjectBody b)) st =
              (reply 400 (MissingFields (filter (\<lambda>f. \<not> truthy (b f)) requiredFields)), st, 0))
       \<and> snd (hrRound_POST ai parse session (Some NullBody) st) = (st, 0)
       \<and> snd (hrRound_POST ai parse session None st) = (st, 0)"
proof -
  have ne: "filter (\<lambda>f. \<not> truthy (b f)) requiredFields \<noteq> []"
    using assms by (rule filter_nonempty)
  then show ?thesis
    by (auto simp: hrRound_POST_def auth_def split: option.splits)
qed

theorem missing_fields_rejected_witness:
  "truthy (no_fields ''jobPosition'') = False
   \<and> hrRound_POST (\<lambda>k. None) (\<lambda>t. ParseError) None (Some (ObjectBody no_fields)) sample_store =
       (reply 401 (Error ''Unauthorized''), sample_store, 0)
   \<and> find (\<lambda>x. u_id x = 7) (users sample_store) = None
   \<and> hrRound_POST (\<lambda>k. None) (\<lambda>t. ParseError) (Some 7) (Some (ObjectBody no_fields))
       sample_store =
       (reply 400 (Error ''No resume found''), sample_store, 0)
   \<and> find (\<lambda>x. u_id x = 1) (users sample_store) = Some \<lparr>u_id = 1, u_resume = Some ''cv.pdf''\<rparr>
   \<and> hrRound_POST (\<lambda>k. None) (\<lambda>t. ParseError) (Some 1) (Some (ObjectBody no_fields))
       sample_store =
       (reply 400 (MissingFields requiredFields), sample_store, 0)
   \<and> snd (hrRound_POST (\<lambda>k. None) (\<lambda>t. ParseError) (Some 1) (Some NullBody) sample_store) =
       (sample_store, 0)
   \<and> snd (hrRound_POST (\<lambda>k. None) (\<lambda>t. ParseError) (Some 1) None sample_store) =
       (sample_store, 0)"
proof -
  have t: "truthy (no_fields ''jobPosition'') = False"
    by (simp add: no_fields_def)
  then have h: "\<exists>f \<in> set requiredFields. \<not> truthy (no_fields f)"
    by (auto simp: requiredFields_def)
  have r: "find (\<lambda>x. u_id x = 7) (users sample_store) = None"
    "find (\<lambda>x. u_id x = 1) (users sample_store) = Some \<lparr>u_id = 1, u_resume = Some ''cv.pdf''\<rparr>"
    by (simp_all add: sample_store_def)
  have f: "filter (\<lambda>f. \<not> truthy (no_fields f)) requiredFields = requiredFields"
    by (simp add: no_fields_def)
  note T = missing_fields_rejected
      [OF h, of "\<lambda>k. None" "\<lambda>t. ParseError" sample_store 7 1
         "\<lparr>u_id = 1, u_resume = Some ''cv.pdf''\<rparr>" "Some 1"]
  from T r f t show ?thesis by simp
qed

subsection \<open>Reads by a caller who is not the owner\<close>

text \<open>
  Claim C4, as stated, fails: the interview \<open>GET\<close> answers a signed-in caller who does not
  own the interview with status 404, not 401 (user 7 asks for the interview of user 1).
\<close>

theorem non_owner_GET_counterexample:
  "interview_GET (Some 7) (Some 0) sample_store =
     (reply 404 (Error ''HR Interview not found''), sample_store)"
  by (simp add: interview_GET_def auth_def sample_store_def sample_interview_def)

text \<open>
  Claim C4, amended. For a signed-in caller \<open>u\<close> who is not the owner: the \<open>GET\<close> of a
  follow-up question, and the \<open>GET\<close> of the follow-up questions of a main question, answer
  status 401 with the body Unauthorized; the \<open>GET\<close> of an interview answers status 404 with
  the body HR Interview not found. The body carries nothing of the store, and the store is
  unchanged.
\<close>

theorem non_owner_GET_rejected:
  "(find (\<lambda>f. f_id f = fid) (followups st) = Some fu
      \<and> interview_of_question st (f_mainQuestionId fu) = Some own
      \<and> i_userId own \<noteq> Some u
     \<longrightarrow> followup_GET (Some u) (Some fid) mq st = (reply 401 (Error ''Unauthorized''), st))
   \<and> (find (\<lambda>q. q_id q = m) (questions st) = Some mainQuestion
      \<and> interview_of_question st m = Some own'
      \<and> i_userId own' \<noteq> Some u
     \<longrightarrow> followup_GET (Some u) None (Some m) st = (reply 401 (Error ''Unauthorized''), st))
   \<and> ((\<forall>i \<in> set (interviews st). i_id i = iid \<longrightarrow> i_userId i \<noteq> Some u)
     \<longrightarrow> interview_GET (Some u) (Some iid) st =
           (reply 404 (Error ''HR Interview not found''), st))"
  by (auto simp: followup_GET_def interview_GET_def auth_def find_owned_None
      split: option.splits)

theorem non_owner_GET_rejected_witness:
  "find (\<lambda>f. f_id f = 2) (followups sample_store) = Some sample_followup
   \<and> interview_of_question sample_store (f_mainQuestionId sample_followup)
       = Some sample_interview
   \<and> i_userId sample_interview \<noteq> Some 7
   \<and> followup_GET (Some 7) (Some 2) None sample_store =
       (reply 401 (Error ''Unauthorized''), sample_store)
   \<and> find (\<lambda>q. q_id q = 1) (questions sample_store) = Some sample_question
   \<and> interview_of_question sample_store 1 = Some sample_interview
   \<and> followup_GET (Some 7) None (Some 1) sample_store =
       (reply 401 (Error ''Unauthorized''), sample_store)
   \<and> interview_GET (Some 7) (Some 0) sample_store =
       (reply 404 (Error ''HR Interview not found''), sample_store)"
proof -
  have a: "find (\<lambda>f. f_id f = 2) (followups sample_store) = Some sample_followup"
    "interview_of_question sample_store (f_mainQuestionId sample_followup)
       = Some sample_interview"
    "i_userId sample_interview \<noteq> Some 7"
    "find (\<lambda>q. q_id q = 1) (questions sample_store) = Some sample_question"
    "interview_of_question sample_store 1 = Some sample_interview"
    "\<forall>i \<in> set (interviews sample_store). i_id i = 0 \<longrightarrow> i_userId i \<noteq> Some 7"
    by (simp_all add: sample_store_def interview_of_question_def sample_followup_def
        sample_question_def sample_interview_def)
  show ?thesis
    using a non_owner_GET_rejected
            [of 2 sample_store sample_followup sample_interview 7
                None 1 sample_question sample_interview 0]
    by blast
qed

subsection \<open>A failing call to the model\<close>

lemma update_answer_found:
  "find (\<lambda>a. a_id a = i) (answers st) \<noteq> None \<Longrightarrow> update_answer i upd st \<noteq> None"
  by (auto simp: update_answer_def split: option.splits)

lemma find_id_of_found:
  "find P xs = Some x \<Longrightarrow> find (\<lambda>a. a_id a = a_id x) xs \<noteq> None"
  by (induction xs) (auto split: if_splits)

lemma save_main_answer_saved:
  assumes own: "\<forall>a \<in> set (answers st). a_hrQuestionId a = Some q \<longrightarrow> a_userId a = Some u"
  shows "save_main_answer q (Some u) b an st \<noteq> None"
proof (cases "find (\<lambda>a. a_hrQuestionId a = Some q \<and> a_userId a = Some u) (answers st)")
  case None
  then have "\<forall>a \<in> set (answers st). a_hrQuestionId a \<noteq> Some q"
    using own by (auto simp: find_None_iff)
  then show ?thesis using None
    by (auto simp: save_main_answer_def create_answer_def apply_analysis_def Let_def)
next
  case (Some a)
  then show ?thesis
    by (simp add: save_main_answer_def update_answer_found find_id_of_found)
qed

lemma upsert_answer_saved:
  "a_hrQuestionId new = Some q \<Longrightarrow> upsert_answer q upd new st \<noteq> None"
  by (auto simp: upsert_answer_def create_answer_def Let_def find_None_iff split: option.splits)

lemma calls_main_next_question: "main_next_question ai h fs st = (x, st', k) \<Longrightarrow> k \<le> 2"
  by (auto simp: main_next_question_def Let_def split: list.splits prod.splits if_splits)

lemma calls_processMainQuestion: "snd (snd (processMainQuestion ai s b st)) \<le> 2"
  by (auto simp: processMainQuestion_def Let_def split: option.splits prod.splits
      dest: calls_main_next_question)

lemma calls_score_followup_answer:
  "snd (snd (score_followup_answer ai u b f st k)) \<le> Suc k"
  by (simp add: score_followup_answer_def Let_def split: option.splits prod.splits)

lemma calls_processFollowUpQuestion: "snd (snd (processFollowUpQuestion ai s b st)) \<le> 2"
proof -
  have a: "snd (snd (score_followup_answer ai u r f st' 0)) \<le> 2" for u r f st'
    using calls_score_followup_answer[of ai u r f st' 0] by simp
  have c: "snd (snd (score_followup_answer ai u r f st' (Suc 0))) \<le> 2" for u r f st'
    using calls_score_followup_answer[of ai u r f st' "Suc 0"] by simp
  show ?thesis
    by (simp add: processFollowUpQuestion_def Let_def a c split: option.splits prod.splits)
qed

lemma calls_questions_GET: "snd (snd (questions_GET ai s i q g st)) \<le> 1"
  by (simp add: questions_GET_def Let_def split: option.splits prod.splits)

lemma calls_questions_POST: "snd (snd (questions_POST ai s i b st)) \<le> 1"
  by (simp add: questions_POST_def Let_def split: option.splits prod.splits)

lemma calls_hrRound_POST: "snd (snd (hrRound_POST ai p s b st)) \<le> 1"
  by (simp add: hrRound_POST_def Let_def
      split: option.splits prod.splits parsed.splits json_body.splits)

lemma questions_GET_failure:
  "ai 0 = None \<Longrightarrow>
   fst (snd (questions_GET ai s i q g st)) = st
   \<and> (snd (snd (questions_GET ai s i q g st)) = 0
      \<or> questions_GET ai s i q g st =
           (reply 500 (Error ''Failed to fetch questions''), st, 1))"
  by (simp add: questions_GET_def Let_def split: option.splits)

lemma questions_POST_failure:
  "ai 0 = None \<Longrightarrow>
   fst (snd (questions_POST ai s i b st)) = st
   \<and> (snd (snd (questions_POST ai s i b st)) = 0
      \<or> questions_POST ai s i b st =
           (reply 500 (Error ''Failed to generate follow-up question''), st, 1))"
  by (simp add: questions_POST_def Let_def split: option.splits)

lemma hrRound_POST_failure:
  "ai 0 = None \<Longrightarrow>
   fst (snd (hrRound_POST ai p s b st)) = st
   \<and> (snd (snd (hrRound_POST ai p s b st)) = 0
      \<or> hrRound_POST ai p s b st = (reply 500 (Error ''Internal Server Error''), st, 1))"
  by (simp add: hrRound_POST_def Let_def split: option.splits json_body.splits)

lemma followup_generation_failure:
  "ar_followUpQuestionId b = None \<Longrightarrow> ar_hrQuestionId b = Some q \<Longrightarrow>
   str_truthy (ar_userAnswer b) \<Longrightarrow> find (\<lambda>x. q_id x = q) (questions st) = Some mq \<Longrightarrow>
   ai 0 = None \<Longrightarrow>
   processFollowUpQuestion ai (Some u) (Some b) st =
     (reply 500 (Error ''Failed to generate follow-up question''), st, 1)"
  by (simp add: processFollowUpQuestion_def auth_def Let_def str_truthy_def)

lemma null_analysis:
  "parseAnalysisResponse None (Some m) = default_analysis m"
  by (simp add: parseAnalysisResponse_def default_analysis_def)

lemma answers_main_next_question:
  "main_next_question ai h fs st1 = (x, st2, k) \<Longrightarrow> answers st2 = answers st1"
  by (auto simp: main_next_question_def create_followup_def Let_def
      split: list.splits prod.splits if_splits)

lemma updated_row_in:
  "y \<in> set xs \<Longrightarrow> P y \<Longrightarrow> upd y \<in> set (map (\<lambda>a. if P a then upd a else a) xs)"
  by (induction xs) auto

lemma save_main_answer_row:
  assumes "save_main_answer q uo b an st = Some (ans, st1)"
  shows "answer_saved ans (opt_or (ar_userAnswer b) []) an st1 \<and> followups st1 = followups st"
proof (cases "find (\<lambda>a. a_hrQuestionId a = Some q \<and> a_userId a = uo) (answers st)")
  case None
  with assms show ?thesis
    by (auto simp: save_main_answer_def create_answer_def Let_def answer_saved_def
        apply_analysis_def split: if_splits)
next
  case (Some ex)
  with assms obtain y where y: "find (\<lambda>a. a_id a = a_id ex) (answers st) = Some y"
    by (auto simp: save_main_answer_def update_answer_def Let_def split: option.splits)
  let ?upd = "\<lambda>a. apply_analysis an
                     (a\<lparr>a_userAnswer := opt_or (ar_userAnswer b) [], a_videoUrl := ar_videoUrl b\<rparr>)"
  from assms Some y have a: "ans = ?upd y"
    and s: "st1 = st\<lparr>answers := map (\<lambda>a. if a_id a = a_id ex then ?upd a else a) (answers st)\<rparr>"
    by (auto simp: save_main_answer_def update_answer_def Let_def)
  from y have "y \<in> set (answers st)" "a_id y = a_id ex" by (auto dest: find_Some_set)
  then have "?upd y \<in> set (map (\<lambda>a. if a_id a = a_id ex then ?upd a else a) (answers st))"
    by (intro updated_row_in) simp_all
  then show ?thesis
    by (simp add: a s answer_saved_def apply_analysis_def)
qed

lemma upsert_answer_row:
  assumes "upsert_answer q (\<lambda>a. apply_analysis an (a\<lparr>a_userAnswer := t, a_videoUrl := v\<rparr>))
             (apply_analysis an (new\<lparr>a_userAnswer := t, a_videoUrl := v\<rparr>)) st = Some (ans, st1)"
  shows "answer_saved ans t an st1 \<and> followups st1 = followups st"
proof (cases "find (\<lambda>a. a_hrQuestionId a = Some q) (answers st)")
  case None
  with assms show ?thesis
    by (auto simp: upsert_answer_def create_answer_def Let_def answer_saved_def
        apply_analysis_def split: if_splits)
next
  case (Some y)
  let ?upd = "\<lambda>a. apply_analysis an (a\<lparr>a_userAnswer := t, a_videoUrl := v\<rparr>)"
  from assms Some have a: "ans = ?upd y"
    and s: "st1 = st\<lparr>answers := map (\<lambda>a. if a_hrQuestionId a = Some q then ?upd a else a) (answers st)\<rparr>"
    by (auto simp: upsert_answer_def)
  from Some have "y \<in> set (answers st)" "a_hrQuestionId y = Some q" by (auto dest: find_Some_set)
  then have "?upd y \<in> set (map (\<lambda>a. if a_hrQuestionId a = Some q then ?upd a else a) (answers st))"
    by (intro updated_row_in) simp_all
  then show ?thesis
    by (simp add: a s answer_saved_def apply_analysis_def)
qed

text \<open>The scoring call of a follow-up answer fails.\<close>

lemma score_followup_answer_failure:
  assumes "find (\<lambda>x. q_id x = f_mainQuestionId fu) (questions st) = Some mq" "ai k = None"
  shows "\<exists>ans st1.
           score_followup_answer ai uo b (Some fu) st k =
             (reply 200
                (FollowUpScored ans (default_analysis (num_or (f_maxScore fu) DEFAULT_MAX_SCORE)) fu),
              st1, Suc k)
           \<and> answer_saved ans (opt_or (ar_userAnswer b) [])
                (default_analysis (num_or (f_maxScore fu) DEFAULT_MAX_SCORE)) st1
           \<and> followups st1 = followups st"
proof -
  let ?an = "default_analysis (num_or (f_maxScore fu) DEFAULT_MAX_SCORE)"
  let ?t = "opt_or (ar_userAnswer b) []"
  let ?v = "if str_truthy (ar_videoUrl b) then ar_videoUrl b else None"
  let ?upd = "\<lambda>a. apply_analysis ?an (a\<lparr>a_userAnswer := ?t, a_videoUrl := ?v\<rparr>)"
  let ?new0 = "blank_answer\<lparr>a_hrFollowUpQuestionId := Some (f_id fu),
                            a_hrQuestionId := Some (q_id mq), a_userId := uo\<rparr>"
  let ?new = "apply_analysis ?an (?new0\<lparr>a_userAnswer := ?t, a_videoUrl := ?v\<rparr>)"
  have "a_hrQuestionId ?new = Some (q_id mq)" by (simp add: apply_analysis_def)
  from upsert_answer_saved[OF this, of ?upd st]
  obtain ans st1 where s: "upsert_answer (q_id mq) ?upd ?new st = Some (ans, st1)"
    by fastforce
  from upsert_answer_row[OF s] have r: "answer_saved ans ?t ?an st1 \<and> followups st1 = followups st" .
  have "score_followup_answer ai uo b (Some fu) st k =
          (reply 200 (FollowUpScored ans ?an fu), st1, Suc k)"
    using assms s by (simp add: score_followup_answer_def Let_def null_analysis)
  with r show ?thesis by blast
qed

lemma main_scoring_failure:
  assumes "ar_hrQuestionId b = Some q" "str_truthy (ar_userAnswer b)"
    "find (\<lambda>x. q_id x = q) (questions st) = Some hrQuestion"
    "\<forall>a \<in> set (answers st). a_hrQuestionId a = Some q \<longrightarrow> a_userId a = Some u"
    "ai 0 = None"
  shows "\<exists>ans nq.
           fst (processMainQuestion ai (Some u) (Some b) st) =
             reply 200
               (MainScored ans
                  (default_analysis (num_or (q_maxScore hrQuestion) DEFAULT_MAX_SCORE)) nq)
           \<and> answer_saved ans (opt_or (ar_userAnswer b) [])
                (default_analysis (num_or (q_maxScore hrQuestion) DEFAULT_MAX_SCORE))
                (fst (snd (processMainQuestion ai (Some u) (Some b) st)))"
proof -
  let ?an = "default_analysis (num_or (q_maxScore hrQuestion) DEFAULT_MAX_SCORE)"
  from save_main_answer_saved[OF assms(4), of b ?an]
  obtain ans st1 where s: "save_main_answer q (Some u) b ?an st = Some (ans, st1)"
    by fastforce
  obtain nq st2 k where n:
    "main_next_question ai hrQuestion (followUpQuestions_of st q) st1 = (nq, st2, k)"
    by (cases "main_next_question ai hrQuestion (followUpQuestions_of st q) st1") auto
  have p: "processMainQuestion ai (Some u) (Some b) st = (reply 200 (MainScored ans ?an nq), st2, k)"
    using assms s n by (simp add: processMainQuestion_def auth_def Let_def null_analysis)
  from save_main_answer_row[OF s] answers_main_next_question[OF n]
  have "answer_saved ans (opt_or (ar_userAnswer b) []) ?an st2"
    by (simp add: answer_saved_def)
  with p show ?thesis by auto
qed

lemma main_generation_failure:
  assumes "ar_hrQuestionId b = Some q" "str_truthy (ar_userAnswer b)"
    "find (\<lambda>x. q_id x = q) (questions st) = Some hrQuestion"
    "\<forall>a \<in> set (answers st). a_hrQuestionId a = Some q \<longrightarrow> a_userId a = Some u"
    "followUpQuestions_of st q = []" "ai 1 = None"
  shows "\<exists>ans.
           fst (processMainQuestion ai (Some u) (Some b) st) =
             reply 200
               (MainScored ans
                  (parseAnalysisResponse (ai 0)
                     (Some (num_or (q_maxScore hrQuestion) DEFAULT_MAX_SCORE))) None)
           \<and> answer_saved ans (opt_or (ar_userAnswer b) [])
                (parseAnalysisResponse (ai 0)
                   (Some (num_or (q_maxScore hrQuestion) DEFAULT_MAX_SCORE)))
                (fst (snd (processMainQuestion ai (Some u) (Some b) st)))
           \<and> followups (fst (snd (processMainQuestion ai (Some u) (Some b) st))) = followups st
           \<and> snd (snd (processMainQuestion ai (Some u) (Some b) st)) = 2"
proof -
  let ?an = "parseAnalysisResponse (ai 0) (Some (num_or (q_maxScore hrQuestion) DEFAULT_MAX_SCORE))"
  from save_main_answer_saved[OF assms(4), of b ?an]
  obtain ans st1 where s: "save_main_answer q (Some u) b ?an st = Some (ans, st1)"
    by fastforce
  have n: "main_next_question ai hrQuestion (followUpQuestions_of st q) st1 = (None, st1, 2)"
    using assms(5,6) by (simp add: main_next_question_def str_truthy_def)
  have p: "processMainQuestion ai (Some u) (Some b) st = (reply 200 (MainScored ans ?an None), st1, 2)"
    using assms(1-3) s n by (simp add: processMainQuestion_def auth_def Let_def)
  from save_main_answer_row[OF s] p show ?thesis by auto
qed

lemma followup_scoring_failure:
  assumes "ar_followUpQuestionId b = Some fid" "str_truthy (ar_userAnswer b)"
    "find (\<lambda>f. f_id f = fid) (followups st) = Some fu"
    "find (\<lambda>x. q_id x = f_mainQuestionId fu) (questions st) = Some mq"
    "ai 0 = None"
  shows "\<exists>ans.
           fst (processFollowUpQuestion ai (Some u) (Some b) st) =
             reply 200
               (FollowUpScored ans
                  (default_analysis (num_or (f_maxScore fu) DEFAULT_MAX_SCORE)) fu)
           \<and> answer_saved ans (opt_or (ar_userAnswer b) [])
                (default_analysis (num_or (f_maxScore fu) DEFAULT_MAX_SCORE))
                (fst (snd (processFollowUpQuestion ai (Some u) (Some b) st)))
           \<and> snd (snd (processFollowUpQuestion ai (Some u) (Some b) st)) = 1"
proof -
  from score_followup_answer_failure
         [where ai = ai and k = 0 and fu = fu and st = st and mq = mq and uo = "Some u" and b = b,
          OF assms(4,5)]
  obtain ans st1 where
    r: "score_followup_answer ai (Some u) b (Some fu) st 0 =
          (reply 200
             (FollowUpScored ans (default_analysis (num_or (f_maxScore fu) DEFAULT_MAX_SCORE)) fu),
           st1, Suc 0)"
    and a: "answer_saved ans (opt_or (ar_userAnswer b) [])
              (default_analysis (num_or (f_maxScore fu) DEFAULT_MAX_SCORE)) st1"
    by blast
  have "processFollowUpQuestion ai (Some u) (Some b) st =
          (reply 200
             (FollowUpScored ans (default_analysis (num_or (f_maxScore fu) DEFAULT_MAX_SCORE)) fu),
           st1, 1)"
    using assms(1-3) r by (simp add: processFollowUpQuestion_def auth_def Let_def)
  with a show ?thesis by auto
qed

lemma generated_followup_scoring_failure:
  assumes "ar_followUpQuestionId b = None" "ar_hrQuestionId b = Some q"
    "str_truthy (ar_userAnswer b)"
    "find (\<lambda>x. q_id x = q) (questions st) = Some mq"
    "ai 0 = Some t" "t \<noteq> []" "ai 1 = None"
  shows "\<exists>ans.
           fst (processFollowUpQuestion ai (Some u) (Some b) st) =
             reply 200
               (FollowUpScored ans
                  (default_analysis
                     (num_or (f_maxScore (scored_followup mq t)) DEFAULT_MAX_SCORE))
                  ((scored_followup mq t)\<lparr>f_id := next_id st\<rparr>))
           \<and> answer_saved ans (opt_or (ar_userAnswer b) [])
                (default_analysis
                   (num_or (f_maxScore (scored_followup mq t)) DEFAULT_MAX_SCORE))
                (fst (snd (processFollowUpQuestion ai (Some u) (Some b) st)))
           \<and> followups (fst (snd (processFollowUpQuestion ai (Some u) (Some b) st))) =
               followups st @ [(scored_followup mq t)\<lparr>f_id := next_id st\<rparr>]
           \<and> snd (snd (processFollowUpQuestion ai (Some u) (Some b) st)) = 2"
proof -
  let ?fu = "(scored_followup mq t)\<lparr>f_id := next_id st\<rparr>"
  let ?st1 = "st\<lparr>followups := followups st @ [?fu], next_id := Suc (next_id st)\<rparr>"
  have c: "create_followup (scored_followup mq t) st = (?fu, ?st1)"
    by (simp add: create_followup_def Let_def)
  have q: "q_id mq = q" using assms(4) by (auto dest: find_Some_set)
  have m: "find (\<lambda>x. q_id x = f_mainQuestionId ?fu) (questions ?st1) = Some mq"
    using assms(4) q by (simp add: scored_followup_def)
  have k: "ai (Suc 0) = None" using assms(7) by simp
  from score_followup_answer_failure
         [where ai = ai and k = "Suc 0" and fu = ?fu and st = ?st1 and mq = mq
            and uo = "Some u" and b = b, OF m k]
  obtain ans st2 where
    r: "score_followup_answer ai (Some u) b (Some ?fu) ?st1 (Suc 0) =
          (reply 200
             (FollowUpScored ans (default_analysis (num_or (f_maxScore ?fu) DEFAULT_MAX_SCORE)) ?fu),
           st2, Suc (Suc 0))"
    and a: "answer_saved ans (opt_or (ar_userAnswer b) [])
              (default_analysis (num_or (f_maxScore ?fu) DEFAULT_MAX_SCORE)) st2"
    and f: "followups st2 = followups ?st1"
    by blast
  have "processFollowUpQuestion ai (Some u) (Some b) st =
          (reply 200
             (FollowUpScored ans (default_analysis (num_or (f_maxScore ?fu) DEFAULT_MAX_SCORE)) ?fu),
           st2, 2)"
    using assms(1-6) c r
    by (simp add: processFollowUpQuestion_def auth_def Let_def str_truthy_def opt_or_def)
  with a f show ?thesis by auto
qed

text \<open>
  Claim C3, as stated, fails: when the scoring call fails, the answer handler saves the
  answer with the default analysis and returns its success response, status 200.
\<close>

theorem failed_scoring_counterexample:
  "processMainQuestion (\<lambda>k. None) (Some 1) (Some sample_answer) sample_store =
     (reply 200
        (MainScored stored_answer
           \<lparr>score = 5, evaluationFeedback = ''Unable to generate detailed analysis.'',
            matchedKeyPoints = [], voiceTone = None, confidence = None\<rparr>
           (Some sample_followup)),
      answered_store, 1)"
  by (simp add: processMainQuestion_def save_main_answer_def main_next_question_def auth_def
      sample_answer_def sample_store_def sample_question_def sample_followup_def
      stored_answer_def answered_store_def str_truthy_def create_answer_def
      followUpQuestions_of_def Let_def opt_or_def parseAnalysisResponse_def num_or_def
      DEFAULT_MAX_SCORE_def apply_analysis_def blank_answer_def)

text \<open>
  Claim C3, amended. No handler calls the model again after a failed call: the answer
  handlers make at most two calls (one scoring call, one generation of a follow-up
  question), the other handlers at most one. When the only call of the question \<open>GET\<close>, the
  question \<open>POST\<close> or the interview creation fails, the handler answers status 500 and the
  store is unchanged; so does \<open>processFollowUpQuestion\<close> when the generation of its
  follow-up question fails. A failed scoring call is not reported: \<open>processMainQuestion\<close>
  (when the question has no answer of another user) and \<open>processFollowUpQuestion\<close> (for a
  given follow-up question, and for one it has just generated) answer status 200 with
  their success body, whose analysis is the default one, score \<open>floor(maxScore / 2)\<close>, the
  feedback for a missing analysis, no key points, no voice tone and no confidence; the
  answer row of the body is in the store, with the submitted text and these values. A
  failed generation of the follow-up question in \<open>processMainQuestion\<close> (the question has
  no follow-up question yet) is not reported either: the handler answers status 200 with
  \<open>nextQuestion\<close> \<open>null\<close>, the answer is saved with its analysis, and no follow-up question
  is created.
\<close>

theorem model_failure_handling:
  "(ar_hrQuestionId b = Some q \<and> str_truthy (ar_userAnswer b)
      \<and> find (\<lambda>x. q_id x = q) (questions st) = Some hrQuestion
      \<and> (\<forall>a \<in> set (answers st). a_hrQuestionId a = Some q \<longrightarrow> a_userId a = Some u)
      \<and> ai 0 = None
     \<longrightarrow> (\<exists>ans nq.
            fst (processMainQuestion ai (Some u) (Some b) st) =
              reply 200
                (MainScored ans
                   (default_analysis (num_or (q_maxScore hrQuestion) DEFAULT_MAX_SCORE)) nq)
            \<and> answer_saved ans (opt_or (ar_userAnswer b) [])
                 (default_analysis (num_or (q_maxScore hrQuestion) DEFAULT_MAX_SCORE))
                 (fst (snd (processMainQuestion ai (Some u) (Some b) st)))))
   \<and> (ar_hrQuestionId b = Some q \<and> str_truthy (ar_userAnswer b)
      \<and> find (\<lambda>x. q_id x = q) (questions sg) = Some hrQuestion
      \<and> (\<forall>a \<in> set (answers sg). a_hrQuestionId a = Some q \<longrightarrow> a_userId a = Some u)
      \<and> followUpQuestions_of sg q = [] \<and> aim 1 = None
     \<longrightarrow> (\<exists>ans.
            fst (processMainQuestion aim (Some u) (Some b) sg) =
              reply 200
                (MainScored ans
                   (parseAnalysisResponse (aim 0)
                      (Some (num_or (q_maxScore hrQuestion) DEFAULT_MAX_SCORE))) None)
            \<and> answer_saved ans (opt_or (ar_userAnswer b) [])
                 (parseAnalysisResponse (aim 0)
                    (Some (num_or (q_maxScore hrQuestion) DEFAULT_MAX_SCORE)))
                 (fst (snd (processMainQuestion aim (Some u) (Some b) sg)))
            \<and> followups (fst (snd (processMainQuestion aim (Some u) (Some b) sg))) = followups sg
            \<and> snd (snd (processMainQuestion aim (Some u) (Some b) sg)) = 2))
   \<and> (ar_followUpQuestionId fb = Some fid \<and> str_truthy (ar_userAnswer fb)
      \<and> find (\<lambda>f. f_id f = fid) (followups st) = Some fu
      \<and> find (\<lambda>x. q_id x = f_mainQuestionId fu) (questions st) = Some mq
      \<and> ai 0 = None
     \<longrightarrow> (\<exists>ans.
            fst (processFollowUpQuestion ai (Some u) (Some fb) st) =
              reply 200
                (FollowUpScored ans
                   (default_analysis (num_or (f_maxScore fu) DEFAULT_MAX_SCORE)) fu)
            \<and> answer_saved ans (opt_or (ar_userAnswer fb) [])
                 (default_analysis (num_or (f_maxScore fu) DEFAULT_MAX_SCORE))
                 (fst (snd (processFollowUpQuestion ai (Some u) (Some fb) st)))
            \<and> snd (snd (processFollowUpQuestion ai (Some u) (Some fb) st)) = 1))
   \<and> (ar_followUpQuestionId gb = None \<and> ar_hrQuestionId gb = Some q
      \<and> str_truthy (ar_userAnswer gb)
      \<and> find (\<lambda>x. q_id x = q) (questions st) = Some hrQuestion
      \<and> aig 0 = Some t \<and> t \<noteq> [] \<and> aig 1 = None
     \<longrightarrow> (\<exists>ans.
            fst (processFollowUpQuestion aig (Some u) (Some gb) st) =
              reply 200
                (FollowUpScored ans
                   (default_analysis
                      (num_or (f_maxScore (scored_followup hrQuestion t)) DEFAULT_MAX_SCORE))
                   ((scored_followup hrQuestion t)\<lparr>f_id := next_id st\<rparr>))
            \<and> answer_saved ans (opt_or (ar_userAnswer gb) [])
                 (default_analysis
                    (num_or (f_maxScore (scored_followup hrQuestion t)) DEFAULT_MAX_SCORE))
                 (fst (snd (processFollowUpQuestion aig (Some u) (Some gb) st)))
            \<and> followups (fst (snd (processFollowUpQuestion aig (Some u) (Some gb) st))) =
                followups st @ [(scored_followup hrQuestion t)\<lparr>f_id := next_id st\<rparr>]
            \<and> snd (snd (processFollowUpQuestion aig (Some u) (Some gb) st)) = 2))
   \<and> (ar_followUpQuestionId gb = None \<and> ar_hrQuestionId gb = Some q
      \<and> str_truthy (ar_userAnswer gb)
      \<and> find (\<lambda>x. q_id x = q) (questions st) = Some hrQuestion
      \<and> ai 0 = None
     \<longrightarrow> processFollowUpQuestion ai (Some u) (Some gb) st =
           (reply 500 (Error ''Failed to generate follow-up question''), st, 1))
   \<and> (ai 0 = None
     \<longrightarrow> fst (snd (questions_GET ai s i qid g st)) = st
        \<and> (snd (snd (questions_GET ai s i qid g st)) = 0
           \<or> questions_GET ai s i qid g st =
                (reply 500 (Error ''Failed to fetch questions''), st, 1))
        \<and> fst (snd (questions_POST ai s i qb st)) = st
        \<and> (snd (snd (questions_POST ai s i qb st)) = 0
           \<or> questions_POST ai s i qb st =
                (reply 500 (Error ''Failed to generate follow-up question''), st, 1))
        \<and> fst (snd (hrRound_POST ai p s cb st)) = st
        \<and> (snd (snd (hrRound_POST ai p s cb st)) = 0
           \<or> hrRound_POST ai p s cb st =
                (reply 500 (Error ''Internal Server Error''), st, 1)))
   \<and> snd (snd (processMainQuestion ai s mb st)) \<le> 2
   \<and> snd (snd (processFollowUpQuestion ai s mb st)) \<le> 2
   \<and> snd (snd (questions_GET ai s i qid g st)) \<le> 1
   \<and> snd (snd (questions_POST ai s i qb st)) \<le> 1
   \<and> snd (snd (hrRound_POST ai p s cb st)) \<le> 1"
  apply (intro conjI impI)
  subgoal by (elim conjE, rule main_scoring_failure)
  subgoal by (elim conjE, rule main_generation_failure)
  subgoal by (elim conjE, rule followup_scoring_failure)
  subgoal by (elim conjE, rule generated_followup_scoring_failure)
  subgoal by (elim conjE, rule followup_generation_failure)
  subgoal using questions_GET_failure[of ai s i qid g st] by blast
  subgoal using questions_GET_failure[of ai s i qid g st] by blast
  subgoal using questions_POST_failure[of ai s i qb st] by blast
  subgoal using questions_POST_failure[of ai s i qb st] by blast
  subgoal using hrRound_POST_failure[of ai p s cb st] by blast
  subgoal using hrRound_POST_failure[of ai p s cb st] by blast
  subgoal by (rule calls_processMainQuestion)
  subgoal by (rule calls_processFollowUpQuestion)
  subgoal by (rule calls_questions_GET)
  subgoal by (rule calls_questions_POST)
  subgoal by (rule calls_hrRound_POST)
  done

theorem model_failure_handling_witness:
  "ar_hrQuestionId sample_answer = Some 1 \<and> str_truthy (ar_userAnswer sample_answer)
   \<and> ar_followUpQuestionId sample_answer = None
   \<and> find (\<lambda>x. q_id x = 1) (questions answered_store) = Some sample_question
   \<and> answers answered_store = [stored_answer] \<and> a_userId stored_answer = Some 1
   \<and> find (\<lambda>x. q_id x = 1) (questions bare_store) = Some sample_question
   \<and> answers bare_store = [] \<and> followUpQuestions_of bare_store 1 = []
   \<and> ar_followUpQuestionId sample_followup_answer = Some 2
   \<and> str_truthy (ar_userAnswer sample_followup_answer)
   \<and> find (\<lambda>f. f_id f = 2) (followups answered_store) = Some sample_followup
   \<and> find (\<lambda>x. q_id x = f_mainQuestionId sample_followup) (questions answered_store)
       = Some sample_question
   \<and> generation_only 0 = Some ''Why now?'' \<and> generation_only 1 = None
   \<and> (\<exists>ans nq.
        fst (processMainQuestion (\<lambda>k. None) (Some 1) (Some sample_answer) answered_store) =
          reply 200 (MainScored ans (default_analysis 10) nq)
        \<and> answer_saved ans ''I like the product'' (default_analysis 10)
             (fst (snd (processMainQuestion (\<lambda>k. None) (Some 1) (Some sample_answer)
                          answered_store))))
   \<and> (\<exists>ans.
        fst (processMainQuestion (\<lambda>k. None) (Some 1) (Some sample_answer) bare_store) =
          reply 200 (MainScored ans (default_analysis 10) None)
        \<and> answer_saved ans ''I like the product'' (default_analysis 10)
             (fst (snd (processMainQuestion (\<lambda>k. None) (Some 1) (Some sample_answer)
                          bare_store)))
        \<and> followups (fst (snd (processMainQuestion (\<lambda>k. None) (Some 1) (Some sample_answer)
                                  bare_store))) = []
        \<and> snd (snd (processMainQuestion (\<lambda>k. None) (Some 1) (Some sample_answer) bare_store))
            = 2)
   \<and> (\<exists>ans.
        fst (processFollowUpQuestion (\<lambda>k. None) (Some 1) (Some sample_followup_answer)
               answered_store) =
          reply 200 (FollowUpScored ans (default_analysis 5) sample_followup)
        \<and> answer_saved ans ''The timing is right'' (default_analysis 5)
             (fst (snd (processFollowUpQuestion (\<lambda>k. None) (Some 1)
                          (Some sample_followup_answer) answered_store)))
        \<and> snd (snd (processFollowUpQuestion (\<lambda>k. None) (Some 1) (Some sample_followup_answer)
                       answered_store)) = 1)
   \<and> (\<exists>ans.
        fst (processFollowUpQuestion generation_only (Some 1) (Some sample_answer)
               answered_store) =
          reply 200
            (FollowUpScored ans (default_analysis 5)
               ((scored_followup sample_question ''Why now?'')\<lparr>f_id := 4\<rparr>))
        \<and> answer_saved ans ''I like the product'' (default_analysis 5)
             (fst (snd (processFollowUpQuestion generation_only (Some 1) (Some sample_answer)
                          answered_store)))
        \<and> followups (fst (snd (processFollowUpQuestion generation_only (Some 1)
                                  (Some sample_answer) answered_store))) =
            [sample_followup, (scored_followup sample_question ''Why now?'')\<lparr>f_id := 4\<rparr>]
        \<and> snd (snd (processFollowUpQuestion generation_only (Some 1) (Some sample_answer)
                       answered_store)) = 2)
   \<and> processFollowUpQuestion (\<lambda>k. None) (Some 1) (Some sample_answer) answered_store =
       (reply 500 (Error ''Failed to generate follow-up question''), answered_store, 1)
   \<and> questions_GET (\<lambda>k. None) (Some 1) 0 (Some 1) True answered_store =
       (reply 500 (Error ''Failed to fetch questions''), answered_store, 1)
   \<and> questions_POST (\<lambda>k. None) (Some 1) 0 (Some sample_followup_request) answered_store =
       (reply 500 (Error ''Failed to generate follow-up question''), answered_store, 1)
   \<and> hrRound_POST (\<lambda>k. None) (\<lambda>t. ParseError) (Some 1)
       (Some (ObjectBody sample_fields)) answered_store =
       (reply 500 (Error ''Internal Server Error''), answered_store, 1)"
proof -
  have h: "ar_hrQuestionId sample_answer = Some 1" "str_truthy (ar_userAnswer sample_answer)"
    "ar_followUpQuestionId sample_answer = None"
    "find (\<lambda>x. q_id x = 1) (questions answered_store) = Some sample_question"
    "answers answered_store = [stored_answer]" "a_userId stored_answer = Some 1"
    "find (\<lambda>x. q_id x = 1) (questions bare_store) = Some sample_question"
    "answers bare_store = []" "followUpQuestions_of bare_store 1 = []"
    "ar_followUpQuestionId sample_followup_answer = Some 2"
    "str_truthy (ar_userAnswer sample_followup_answer)"
    "find (\<lambda>f. f_id f = 2) (followups answered_store) = Some sample_followup"
    "find (\<lambda>x. q_id x = f_mainQuestionId sample_followup) (questions answered_store)
       = Some sample_question"
    "generation_only 0 = Some ''Why now?''" "generation_only 1 = None"
    by (simp_all add: sample_answer_def sample_followup_answer_def answered_store_def
        bare_store_def sample_store_def sample_question_def sample_followup_def
        stored_answer_def str_truthy_def followUpQuestions_of_def generation_only_def)
  have m: "num_or (q_maxScore sample_question) DEFAULT_MAX_SCORE = 10"
    "num_or (f_maxScore sample_followup) DEFAULT_MAX_SCORE = 5"
    "num_or (f_maxScore (scored_followup sample_question ''Why now?'')) DEFAULT_MAX_SCORE = 5"
    "opt_or (ar_userAnswer sample_answer) [] = ''I like the product''"
    "opt_or (ar_userAnswer sample_followup_answer) [] = ''The timing is right''"
    "next_id answered_store = 4" "followups answered_store = [sample_followup]"
    "followups bare_store = []"
    "parseAnalysisResponse None (Some 10) = default_analysis 10"
    by (simp_all add: sample_question_def sample_followup_def scored_followup_def num_or_def
        DEFAULT_MAX_SCORE_def sample_answer_def sample_followup_answer_def opt_or_def
        answered_store_def sample_store_def bare_store_def null_analysis)
  have k: "snd (snd (questions_GET (\<lambda>k. None) (Some 1) 0 (Some 1) True answered_store)) \<noteq> 0"
    "snd (snd (questions_POST (\<lambda>k. None) (Some 1) 0 (Some sample_followup_request)
                 answered_store)) \<noteq> 0"
    "snd (snd (hrRound_POST (\<lambda>k. None) (\<lambda>t. ParseError) (Some 1)
                 (Some (ObjectBody sample_fields)) answered_store)) \<noteq> 0"
    by (simp_all add: questions_GET_def questions_POST_def hrRound_POST_def auth_def
        answered_store_def sample_store_def sample_question_def sample_followup_def
        sample_interview_def stored_answer_def sample_followup_request_def sample_fields_def
        requiredFields_def questions_of_def view_question_def followUpQuestions_of_def
        userAnswer_of_def MAX_FOLLOWUP_QUESTIONS_def str_truthy_def Let_def)
  note T = model_failure_handling
      [where b = sample_answer and q = 1 and st = answered_store
         and hrQuestion = sample_question and u = 1 and ai = "\<lambda>k. None"
         and sg = bare_store and aim = "\<lambda>k. None"
         and fb = sample_followup_answer and fid = 2 and fu = sample_followup
         and mq = sample_question
         and gb = sample_answer and aig = generation_only and t = "''Why now?''"
         and s = "Some 1" and i = 0 and qid = "Some 1" and g = True
         and qb = "Some sample_followup_request" and p = "\<lambda>t. ParseError"
         and cb = "Some (ObjectBody sample_fields)" and mb = "Some sample_answer"]
  show ?thesis
    using h k T by (simp add: m)
qed

subsection \<open>What the handlers leave unchanged\<close>

lemma frame_refl [simp]: "frame st st"
  by (simp add: frame_def)

lemma frame_trans: "frame a b \<Longrightarrow> frame b c \<Longrightarrow> frame a c"
  by (auto simp: frame_def intro: prefix_order.trans)

lemma frame_create_interview: "frame st (snd (create_interview d st))"
  by (simp add: frame_def create_interview_def Let_def)

lemma frame_create_question: "frame st (snd (create_question d st))"
  by (simp add: frame_def create_question_def Let_def)

lemma frame_create_followup: "frame st (snd (create_followup d st))"
  by (simp add: frame_def create_followup_def Let_def)

lemma frame_create_answer: "create_answer d st = Some (a, st') \<Longrightarrow> frame st st'"
  by (auto simp: frame_def create_answer_def Let_def split: if_splits)

lemma map_id_update: "map (a_id \<circ> (\<lambda>a. if P a then upd a else a)) xs = map a_id xs"
  if "\<And>a. a_id (upd a) = a_id a"
  by (induction xs) (auto simp: that)

lemma frame_update_answer:
  "(\<And>a. a_id (upd a) = a_id a) \<Longrightarrow> update_answer i upd st = Some (a, st') \<Longrightarrow> frame st st'"
  by (auto simp: frame_def update_answer_def map_id_update split: option.splits)

lemma frame_upsert_answer:
  "(\<And>a. a_id (upd a) = a_id a) \<Longrightarrow> upsert_answer q upd new st = Some (a, st') \<Longrightarrow> frame st st'"
  by (auto simp: upsert_answer_def frame_def map_id_update split: option.splits
      dest: frame_create_answer)

lemma frame_create_followups: "frame st (create_followups m c fs st)"
proof (induction fs arbitrary: st)
  case Nil
  then show ?case by simp
next
  case (Cons f fs)
  show ?case
    by (simp only: create_followups.simps) (rule frame_trans[OF frame_create_followup Cons.IH])
qed

lemma frame_create_questions: "frame st (create_questions i qs st)"
proof (induction qs arbitrary: st)
  case Nil
  then show ?case by simp
next
  case (Cons q qs)
  obtain mainQuestion st1 where c: "create_question
              \<lparr>q_id = 0, q_hrInterviewId = i, q_text = gq_text q,
               q_category = opt_str_or (gq_category q) ''General'',
               q_expectedKeyPoints = opt_or (gq_expectedKeyPoints q) [],
               q_maxScore = opt_num_or (gq_maxScore q) 10,
               q_timeLimit = opt_num_or (gq_timeLimit q) 120\<rparr> st = (mainQuestion, st1)"
    by fastforce
  have f1: "frame st st1" using frame_create_question[of st] c by (metis snd_conv)
  define st2 where "st2 = (case gq_followUpQuestions q of
                   None \<Rightarrow> st1
                 | Some followUps \<Rightarrow>
                     create_followups (q_id mainQuestion)
                       (opt_str_or (gq_category q) ''General'') followUps st1)"
  have f2: "frame st1 st2"
    by (simp add: st2_def frame_create_followups split: option.splits)
  have "create_questions i (q # qs) st = create_questions i qs st2"
    by (simp add: c st2_def)
  then show ?case using Cons.IH[of st2] f1 f2 by (metis frame_trans)
qed

lemma apply_analysis_id [simp]: "a_id (apply_analysis an a) = a_id a"
  by (simp add: apply_analysis_def)

lemma frame_interview_GET: "frame st (snd (interview_GET s i st))"
  by (simp add: interview_GET_def Let_def split: option.splits)
lemma frame_interview_DELETE: "frame st (snd (interview_DELETE s i st))"
  by (simp add: interview_DELETE_def promise_userId_def)
lemma frame_interview_POST: "frame st (snd (interview_POST s b st))"
  by (simp add: interview_POST_def promise_userId_def)
lemma frame_interview_PATCH: "frame st (snd (interview_PATCH s i b st))"
  by (simp add: interview_PATCH_def promise_userId_def)
lemma frame_answers_GET: "frame st (snd (answers_GET i st))"
  by (simp add: answers_GET_def Let_def split: option.splits)
lemma frame_followup_GET: "frame st (snd (followup_GET s f m st))"
  by (simp add: followup_GET_def Let_def split: option.splits)
lemma frame_followup_POST: "frame st (snd (followup_POST s b st))"
  by (simp add: followup_POST_def promise_userId_def)
lemma frame_answer_POST: "frame st (snd (answer_POST s b st))"
  by (simp add: answer_POST_def promise_userId_def)
lemma frame_answer_PATCH: "frame st (snd (answer_PATCH s a b st))"
  by (simp add: answer_PATCH_def promise_userId_def)

lemma frame_questions_GET: "frame st (fst (snd (questions_GET ai s i q g st)))"
  using frame_create_followup
  by (auto simp: questions_GET_def Let_def split: option.splits prod.splits) (metis snd_conv)

lemma frame_questions_POST: "frame st (fst (snd (questions_POST ai s i b st)))"
  using frame_create_followup
  by (auto simp: questions_POST_def Let_def split: option.splits prod.splits) (metis snd_conv)

lemma frame_hrRound_POST: "frame st (fst (snd (hrRound_POST ai p s b st)))"
proof -
  have "frame st (create_questions j qs st1)" if "create_interview d st = (h, st1)" for j qs d h st1
    using frame_trans[OF frame_create_interview[of st d] frame_create_questions[of _ j qs]] that by simp
  then show ?thesis
    by (auto simp: hrRound_POST_def Let_def
        split: option.splits prod.splits parsed.splits json_body.splits)
qed


lemma frame_score_followup_answer:
  "frame st (fst (snd (score_followup_answer ai u b f st k)))"
proof -
  have "frame st st'" if "upsert_answer q (\<lambda>a. apply_analysis an (a\<lparr>a_userAnswer := t, a_videoUrl := v\<rparr>)) new st = Some (x, st')"
    for q an t v new x st'
    using that by (rule frame_upsert_answer[rotated]) simp
  then show ?thesis
    by (auto simp: score_followup_answer_def Let_def split: option.splits prod.splits)
qed

lemma frame_processFollowUpQuestion:
  "frame st (fst (snd (processFollowUpQuestion ai s b st)))"
proof -
  have "frame st (fst (snd (score_followup_answer ai u r f st1 k)))"
    if "create_followup d st = (x, st1)" for u r f st1 k d x
    using frame_trans[OF frame_create_followup[of st d] frame_score_followup_answer[of _ ai u r f k]] that
    by simp
  then show ?thesis
    by (auto simp: processFollowUpQuestion_def Let_def frame_score_followup_answer
        split: option.splits prod.splits)
qed

lemma frame_save_main_answer:
  "save_main_answer q u b an st = Some (x, st') \<Longrightarrow> frame st st'"
proof -
  have u: "frame st st'"
    if "update_answer i (\<lambda>a. apply_analysis an (a\<lparr>a_userAnswer := t, a_videoUrl := v\<rparr>)) st
          = Some (x, st')" for i t v
    using that by (rule frame_update_answer[rotated]) simp
  assume "save_main_answer q u b an st = Some (x, st')"
  then show ?thesis
    by (auto simp: save_main_answer_def Let_def split: option.splits
        dest: u frame_create_answer)
qed

lemma frame_main_next_question:
  "main_next_question ai h fs st1 = (x, st2, k) \<Longrightarrow> frame st1 st2"
  using frame_create_followup[of st1]
  by (auto simp: main_next_question_def Let_def split: list.splits prod.splits if_splits)
     (metis snd_conv)

lemma frame_processMainQuestion:
  "frame st (fst (snd (processMainQuestion ai s b st)))"
  by (auto simp: processMainQuestion_def Let_def split: option.splits prod.splits
      dest!: frame_save_main_answer frame_main_next_question intro: frame_trans)

lemma frame_handle: "frame st (snd (handle r st))"
proof (cases r)
  case (QuestionsGET ai s i q g)
  then show ?thesis using frame_questions_GET[of st ai s i q g] by (simp add: case_prod_beta)
next
  case (QuestionsPOST ai s i b)
  then show ?thesis using frame_questions_POST[of st ai s i b] by (simp add: case_prod_beta)
next
  case (HrRoundPOST ai p s b)
  then show ?thesis using frame_hrRound_POST[of st ai p s b] by (simp add: case_prod_beta)
next
  case (MainAnswerPOST ai s b)
  then show ?thesis using frame_processMainQuestion[of st ai s b] by (simp add: case_prod_beta)
next
  case (FollowupAnswerPUT ai s b)
  then show ?thesis using frame_processFollowUpQuestion[of st ai s b] by (simp add: case_prod_beta)
qed (simp_all add: frame_interview_GET frame_interview_DELETE frame_interview_POST
      frame_interview_PATCH frame_answers_GET frame_followup_GET frame_followup_POST
      frame_answer_POST frame_answer_PATCH)

lemma frame_run: "frame st (run rs st)"
proof (induction rs arbitrary: st)
  case Nil
  then show ?case by simp
next
  case (Cons r rs)
  show ?case using frame_trans[OF frame_handle[of st r] Cons.IH] by simp
qed


text \<open>
  Claim C7. No handler modifies or removes an interview, a main question or a follow-up
  question that exists: after any request, and after any sequence of requests, the rows
  the store held of these three tables are still there, in their places and with their
  fields, followed by the rows created since; the users are the same; the answers keep
  their identifiers and places, so the only rows whose fields change are answers. (The
  two handlers written to update and to delete an interview never pass their session
  check, see claim C9.)
\<close>

theorem existing_records_unchanged:
  "prefix (interviews st) (interviews (snd (handle r st)))
   \<and> prefix (questions st) (questions (snd (handle r st)))
   \<and> prefix (followups st) (followups (snd (handle r st)))
   \<and> prefix (map a_id (answers st)) (map a_id (answers (snd (handle r st))))
   \<and> users (snd (handle r st)) = users st
   \<and> frame st (run rs st)"
  using frame_handle[of st r] frame_run[of st rs] by (simp add: frame_def)

subsection \<open>One answer for each question\<close>

lemma filter_length_mono:
  "(\<forall>x \<in> set xs. P x \<longrightarrow> Q x) \<Longrightarrow> length (filter P xs) \<le> length (filter Q xs)"
  by (induction xs) auto

lemma distinct_map_eq: "distinct (map f xs) \<Longrightarrow> x \<in> set xs \<Longrightarrow> y \<in> set xs \<Longrightarrow> f x = f y \<Longrightarrow> x = y"
  by (meson distinct_map inj_onD)

lemma keys_ok_followup_answers:
  assumes "answer_keys_ok st"
  shows "length (followup_answers_of st f) \<le> 1"
proof (cases "\<exists>fu \<in> set (followups st). f_id fu = f")
  case True
  then obtain fu where fu: "fu \<in> set (followups st)" "f_id fu = f" by blast
  have "\<forall>a \<in> set (answers st). a_hrFollowUpQuestionId a = Some f \<longrightarrow> a_hrQuestionId a = Some (f_mainQuestionId fu)"
  proof (intro ballI impI)
    fix a assume a: "a \<in> set (answers st)" "a_hrFollowUpQuestionId a = Some f"
    with assms obtain fu' where fu': "fu' \<in> set (followups st)" "f_id fu' = f"
      "a_hrQuestionId a = Some (f_mainQuestionId fu')"
      unfolding answer_keys_ok_def by blast
    have "fu' = fu" using assms fu fu'(1,2) unfolding answer_keys_ok_def
      by (metis distinct_map_eq)
    then show "a_hrQuestionId a = Some (f_mainQuestionId fu)" using fu'(3) by simp
  qed
  then have "length (followup_answers_of st f) \<le> length (filter (\<lambda>a. a_hrQuestionId a = Some (f_mainQuestionId fu)) (answers st))"
    unfolding followup_answers_of_def by (rule filter_length_mono)
  also have "\<dots> \<le> 1" using assms unfolding answer_keys_ok_def by blast
  finally show ?thesis .
next
  case False
  then have "\<forall>a \<in> set (answers st). a_hrFollowUpQuestionId a \<noteq> Some f"
    using assms unfolding answer_keys_ok_def by blast
  then have "followup_answers_of st f = []"
    unfolding followup_answers_of_def by (simp add: filter_empty_conv)
  then show ?thesis by simp
qed

lemma keys_ok_create_interview: "answer_keys_ok st \<Longrightarrow> answer_keys_ok (snd (create_interview d st))"
  by (auto simp: answer_keys_ok_def create_interview_def Let_def less_Suc_eq)

lemma keys_ok_create_question: "answer_keys_ok st \<Longrightarrow> answer_keys_ok (snd (create_question d st))"
  by (auto simp: answer_keys_ok_def create_question_def Let_def less_Suc_eq)

lemma keys_ok_create_followup: "answer_keys_ok st \<Longrightarrow> answer_keys_ok (snd (create_followup d st))"
  unfolding answer_keys_ok_def create_followup_def Let_def
  by (auto simp: less_Suc_eq)

lemma keys_ok_create_answer:
  assumes "answer_keys_ok st" "create_answer d st = Some (a, st')"
    and "\<forall>f. a_hrFollowUpQuestionId d = Some f \<longrightarrow>
           (\<exists>fu \<in> set (followups st). f_id fu = f \<and> a_hrQuestionId d = Some (f_mainQuestionId fu))"
  shows "answer_keys_ok st'"
proof -
  from assms(2) have st': "st' = st\<lparr>answers := answers st @ [d\<lparr>a_id := next_id st\<rparr>], next_id := Suc (next_id st)\<rparr>"
    and fresh: "a_hrQuestionId d \<noteq> None \<longrightarrow> (\<forall>a \<in> set (answers st). a_hrQuestionId a \<noteq> a_hrQuestionId d)"
    by (auto simp: create_answer_def Let_def split: if_splits)
  have cnt: "length (filter (\<lambda>a. a_hrQuestionId a = Some q) (answers st @ [d\<lparr>a_id := next_id st\<rparr>])) \<le> 1" for q
  proof (cases "a_hrQuestionId d = Some q")
    case True
    with fresh have "filter (\<lambda>a. a_hrQuestionId a = Some q) (answers st) = []"
      by (auto simp: filter_empty_conv)
    then show ?thesis by simp
  next
    case False
    then show ?thesis using assms(1) by (simp add: answer_keys_ok_def)
  qed
  show ?thesis
    using assms(1,3) cnt unfolding st' answer_keys_ok_def
    by (auto simp: less_Suc_eq)
qed

lemma filter_map_update:
  "(\<And>a. P (upd a) = P a) \<Longrightarrow> filter P (map (\<lambda>a. if C a then upd a else a) xs) = map (\<lambda>a. if C a then upd a else a) (filter P xs)"
  by (induction xs) auto

lemma keys_ok_map_update:
  assumes "answer_keys_ok st"
    and "\<And>a. a_hrQuestionId (upd a) = a_hrQuestionId a"
    and "\<And>a. a_hrFollowUpQuestionId (upd a) = a_hrFollowUpQuestionId a"
  shows "answer_keys_ok (st\<lparr>answers := map (\<lambda>a. if C a then upd a else a) (answers st)\<rparr>)"
proof -
  have "length (filter (\<lambda>a. a_hrQuestionId a = Some q) (map (\<lambda>a. if C a then upd a else a) (answers st)))
      = length (filter (\<lambda>a. a_hrQuestionId a = Some q) (answers st))" for q
    by (subst filter_map_update) (simp_all add: assms(2))
  then show ?thesis
    using assms unfolding answer_keys_ok_def by auto
qed

lemma keys_ok_update_answer:
  "answer_keys_ok st \<Longrightarrow> update_answer i upd st = Some (a, st') \<Longrightarrow>
   (\<And>a. a_hrQuestionId (upd a) = a_hrQuestionId a) \<Longrightarrow>
   (\<And>a. a_hrFollowUpQuestionId (upd a) = a_hrFollowUpQuestionId a) \<Longrightarrow> answer_keys_ok st'"
  by (auto simp: update_answer_def keys_ok_map_update split: option.splits)

lemma keys_ok_upsert_answer:
  "answer_keys_ok st \<Longrightarrow> upsert_answer q upd new st = Some (a, st') \<Longrightarrow>
   (\<And>a. a_hrQuestionId (upd a) = a_hrQuestionId a) \<Longrightarrow>
   (\<And>a. a_hrFollowUpQuestionId (upd a) = a_hrFollowUpQuestionId a) \<Longrightarrow>
   (\<forall>f. a_hrFollowUpQuestionId new = Some f \<longrightarrow>
           (\<exists>fu \<in> set (followups st). f_id fu = f \<and> a_hrQuestionId new = Some (f_mainQuestionId fu))) \<Longrightarrow>
   answer_keys_ok st'"
  by (auto simp: upsert_answer_def keys_ok_map_update split: option.splits
      intro: keys_ok_create_answer)


lemma keys_ok_create_followups: "answer_keys_ok st \<Longrightarrow> answer_keys_ok (create_followups m c fs st)"
proof (induction fs arbitrary: st)
  case Nil
  then show ?case by simp
next
  case (Cons f fs)
  show ?case
    by (simp only: create_followups.simps) (rule Cons.IH[OF keys_ok_create_followup[OF Cons.prems]])
qed

lemma keys_ok_create_questions: "answer_keys_ok st \<Longrightarrow> answer_keys_ok (create_questions i qs st)"
proof (induction qs arbitrary: st)
  case Nil
  then show ?case by simp
next
  case (Cons q qs)
  obtain mainQuestion st1 where c: "create_question
              \<lparr>q_id = 0, q_hrInterviewId = i, q_text = gq_text q,
               q_category = opt_str_or (gq_category q) ''General'',
               q_expectedKeyPoints = opt_or (gq_expectedKeyPoints q) [],
               q_maxScore = opt_num_or (gq_maxScore q) 10,
               q_timeLimit = opt_num_or (gq_timeLimit q) 120\<rparr> st = (mainQuestion, st1)"
    by fastforce
  have f1: "answer_keys_ok st1" using keys_ok_create_question[OF Cons.prems] c by (metis snd_conv)
  define st2 where "st2 = (case gq_followUpQuestions q of
                   None \<Rightarrow> st1
                 | Some followUps \<Rightarrow>
                     create_followups (q_id mainQuestion)
                       (opt_str_or (gq_category q) ''General'') followUps st1)"
  have f2: "answer_keys_ok st2"
    using f1 by (simp add: st2_def keys_ok_create_followups split: option.splits)
  have "create_questions i (q # qs) st = create_questions i qs st2"
    by (simp add: c st2_def)
  then show ?case using Cons.IH[OF f2] by simp
qed

lemma apply_analysis_keys [simp]:
  "a_hrQuestionId (apply_analysis an a) = a_hrQuestionId a"
  "a_hrFollowUpQuestionId (apply_analysis an a) = a_hrFollowUpQuestionId a"
  by (simp_all add: apply_analysis_def)

lemma keys_ok_questions_GET: "answer_keys_ok st \<Longrightarrow> answer_keys_ok (fst (snd (questions_GET ai s i q g st)))"
  using keys_ok_create_followup[of st]
  by (auto simp: questions_GET_def Let_def split: option.splits prod.splits) (metis snd_conv)

lemma keys_ok_questions_POST: "answer_keys_ok st \<Longrightarrow> answer_keys_ok (fst (snd (questions_POST ai s i b st)))"
  using keys_ok_create_followup[of st]
  by (auto simp: questions_POST_def Let_def split: option.splits prod.splits) (metis snd_conv)

lemma keys_ok_hrRound_POST: "answer_keys_ok st \<Longrightarrow> answer_keys_ok (fst (snd (hrRound_POST ai p s b st)))"
proof -
  assume a: "answer_keys_ok st"
  have "answer_keys_ok (create_questions j qs st1)" if "create_interview d st = (h, st1)" for j qs d h st1
    using keys_ok_create_questions[OF keys_ok_create_interview[OF a, of d], of j qs] that by simp
  then show ?thesis
    using a by (auto simp: hrRound_POST_def Let_def
        split: option.splits prod.splits parsed.splits json_body.splits)
qed

lemma keys_ok_save_main_answer:
  assumes a: "answer_keys_ok st" and s: "save_main_answer q u b an st = Some (x, st')"
  shows "answer_keys_ok st'"
proof -
  have u: "answer_keys_ok st'"
    if "update_answer i (\<lambda>a. apply_analysis an (a\<lparr>a_userAnswer := t, a_videoUrl := v\<rparr>)) st
          = Some (x, st')" for i t v
    using keys_ok_update_answer[OF a that] by simp
  have n: "answer_keys_ok st'"
    if "create_answer (apply_analysis an (blank_answer\<lparr>a_hrQuestionId := Some q,
          a_userId := u, a_userAnswer := t\<rparr>)) st = Some (x, st')" for t
    using keys_ok_create_answer[OF a that] by (simp add: blank_answer_def)
  from s show ?thesis
    by (auto simp: save_main_answer_def Let_def split: option.splits dest: u n)
qed

lemma keys_ok_main_next_question:
  "answer_keys_ok st1 \<Longrightarrow> main_next_question ai h fs st1 = (x, st2, k) \<Longrightarrow> answer_keys_ok st2"
  using keys_ok_create_followup[of st1]
  by (auto simp: main_next_question_def Let_def split: list.splits prod.splits if_splits)
     (metis snd_conv)

lemma keys_ok_processMainQuestion:
  assumes a: "answer_keys_ok st"
  shows "answer_keys_ok (fst (snd (processMainQuestion ai s b st)))"
  using a
  by (auto simp: processMainQuestion_def Let_def split: option.splits prod.splits
      dest: keys_ok_main_next_question[OF keys_ok_save_main_answer[OF a]])

lemma keys_ok_score_followup_answer:
  assumes a: "answer_keys_ok st" and f: "\<forall>fu. f = Some fu \<longrightarrow> fu \<in> set (followups st)"
  shows "answer_keys_ok (fst (snd (score_followup_answer ai u b f st k)))"
proof (cases f)
  case None
  then show ?thesis using a by (simp add: score_followup_answer_def)
next
  case (Some fu)
  with f have fu: "fu \<in> set (followups st)" by simp
  show ?thesis
  proof (cases "find (\<lambda>q. q_id q = f_mainQuestionId fu) (questions st)")
    case None
    then show ?thesis using a Some by (simp add: score_followup_answer_def)
  next
    case (Some mq)
    then have mq: "q_id mq = f_mainQuestionId fu" by (auto dest: find_Some_set)
    have "answer_keys_ok st'"
      if "upsert_answer (q_id mq) (\<lambda>a. apply_analysis an (a\<lparr>a_userAnswer := t, a_videoUrl := v\<rparr>))
            (apply_analysis an (blank_answer\<lparr>a_hrFollowUpQuestionId := Some (f_id fu),
               a_hrQuestionId := Some (q_id mq), a_userId := u, a_userAnswer := t, a_videoUrl := v\<rparr>)) st = Some (x, st')"
      for an t v x st'
      using keys_ok_upsert_answer[OF a that] fu mq by auto
    then show ?thesis
      using a Some \<open>f = Some fu\<close>
      by (auto simp: score_followup_answer_def Let_def split: option.splits prod.splits)
  qed
qed

lemma keys_ok_processFollowUpQuestion:
  assumes a: "answer_keys_ok st"
  shows "answer_keys_ok (fst (snd (processFollowUpQuestion ai s b st)))"
proof -
  have 1: "answer_keys_ok (fst (snd (score_followup_answer ai u r (find P (followups st)) st k)))" for u r P k
    by (rule keys_ok_score_followup_answer[OF a]) (auto dest: find_Some_set)
  have 2: "answer_keys_ok (fst (snd (score_followup_answer ai u r None st k)))" for u r k
    by (rule keys_ok_score_followup_answer[OF a]) simp
  have 3: "answer_keys_ok (fst (snd (score_followup_answer ai u r (Some x) st1 k)))"
    if "create_followup d st = (x, st1)" for u r k d x st1
  proof (rule keys_ok_score_followup_answer)
    show "answer_keys_ok st1" using keys_ok_create_followup[OF a, of d] that by simp
    show "\<forall>fu. Some x = Some fu \<longrightarrow> fu \<in> set (followups st1)"
      using that by (auto simp: create_followup_def Let_def)
  qed
  show ?thesis
    using a
    by (auto simp: processFollowUpQuestion_def Let_def 1 2 3 split: option.splits prod.splits)
qed

lemma unchanged_store:
  "snd (interview_GET s i st) = st" "snd (interview_DELETE s i st) = st"
  "snd (interview_POST s fb st) = st" "snd (interview_PATCH s i fb st) = st"
  "snd (answers_GET i st) = st" "snd (followup_GET s f m st) = st"
  "snd (followup_POST s b st) = st" "snd (answer_POST s ab st) = st"
  "snd (answer_PATCH s i fb st) = st"
  by (simp_all add: interview_GET_def interview_DELETE_def interview_POST_def
      interview_PATCH_def answers_GET_def followup_GET_def followup_POST_def answer_POST_def
      answer_PATCH_def promise_userId_def Let_def split: option.splits)

lemma keys_ok_handle: "answer_keys_ok st \<Longrightarrow> answer_keys_ok (snd (handle r st))"
  by (cases r)
    (simp_all add: unchanged_store case_prod_beta keys_ok_questions_GET keys_ok_questions_POST
      keys_ok_hrRound_POST keys_ok_processMainQuestion keys_ok_processFollowUpQuestion)

lemma keys_ok_run: "answer_keys_ok st \<Longrightarrow> answer_keys_ok (run rs st)"
  by (induction rs arbitrary: st) (simp_all add: keys_ok_handle)


lemma keys_ok_empty: "answer_keys_ok (empty_store\<lparr>users := us\<rparr>)"
  by (simp add: answer_keys_ok_def empty_store_def)

text \<open>What a submission writes when the main question has an answer row.\<close>

lemma main_same_user_updates:
  assumes "ar_hrQuestionId b = Some q" "str_truthy (ar_userAnswer b)"
    "find (\<lambda>x. q_id x = q) (questions st) = Some hrQuestion"
    "find (\<lambda>a. a_hrQuestionId a = Some q \<and> a_userId a = Some u) (answers st) = Some ex"
  shows "status (fst (processMainQuestion ai (Some u) (Some b) st)) = 200
       \<and> answers (fst (snd (processMainQuestion ai (Some u) (Some b) st))) =
           map (\<lambda>a. if a_id a = a_id ex
                    then apply_analysis
                           (parseAnalysisResponse (ai 0)
                              (Some (num_or (q_maxScore hrQuestion) DEFAULT_MAX_SCORE)))
                           (a\<lparr>a_userAnswer := opt_or (ar_userAnswer b) [],
                              a_videoUrl := ar_videoUrl b\<rparr>)
                    else a) (answers st)"
proof -
  let ?an = "parseAnalysisResponse (ai 0) (Some (num_or (q_maxScore hrQuestion) DEFAULT_MAX_SCORE))"
  let ?upd = "\<lambda>a. apply_analysis ?an
                     (a\<lparr>a_userAnswer := opt_or (ar_userAnswer b) [], a_videoUrl := ar_videoUrl b\<rparr>)"
  let ?st1 = "st\<lparr>answers := map (\<lambda>a. if a_id a = a_id ex then ?upd a else a) (answers st)\<rparr>"
  from assms(4) obtain y where y: "find (\<lambda>a. a_id a = a_id ex) (answers st) = Some y"
    using find_id_of_found by fastforce
  have s: "save_main_answer q (Some u) b ?an st = Some (?upd y, ?st1)"
    using assms(4) y by (simp add: save_main_answer_def update_answer_def Let_def)
  obtain nq st2 k where n:
    "main_next_question ai hrQuestion (followUpQuestions_of st q) ?st1 = (nq, st2, k)"
    by (cases "main_next_question ai hrQuestion (followUpQuestions_of st q) ?st1") auto
  have "processMainQuestion ai (Some u) (Some b) st = (reply 200 (MainScored (?upd y) ?an nq), st2, k)"
    using assms(1-3) s n by (simp add: processMainQuestion_def auth_def Let_def)
  then show ?thesis
    using answers_main_next_question[OF n] by (simp add: reply_def)
qed

lemma main_other_user_rejected:
  assumes "ar_hrQuestionId b = Some q" "str_truthy (ar_userAnswer b)"
    "find (\<lambda>x. q_id x = q) (questions st) = Some hrQuestion"
    "find (\<lambda>a. a_hrQuestionId a = Some q \<and> a_userId a = Some w) (answers st) = None"
    "\<exists>a \<in> set (answers st). a_hrQuestionId a = Some q"
  shows "processMainQuestion ai (Some w) (Some b) st =
           (reply 500 (Error ''Failed to save answer''), st, 1)"
proof -
  have "save_main_answer q (Some w) b an st = None" for an
    using assms(4,5) by (auto simp: save_main_answer_def create_answer_def apply_analysis_def Let_def)
  then show ?thesis
    using assms(1-3) by (simp add: processMainQuestion_def auth_def Let_def)
qed

lemma followup_updates_main_record:
  assumes "ar_followUpQuestionId b = Some fid" "str_truthy (ar_userAnswer b)"
    "find (\<lambda>f. f_id f = fid) (followups st) = Some fu"
    "find (\<lambda>x. q_id x = f_mainQuestionId fu) (questions st) = Some mq"
    "\<exists>a \<in> set (answers st). a_hrQuestionId a = Some (f_mainQuestionId fu)"
  shows "status (fst (processFollowUpQuestion ai (Some u) (Some b) st)) = 200
       \<and> answers (fst (snd (processFollowUpQuestion ai (Some u) (Some b) st))) =
           map (\<lambda>a. if a_hrQuestionId a = Some (f_mainQuestionId fu)
                    then apply_analysis
                           (parseAnalysisResponse (ai 0)
                              (Some (num_or (f_maxScore fu) DEFAULT_MAX_SCORE)))
                           (a\<lparr>a_userAnswer := opt_or (ar_userAnswer b) [],
                              a_videoUrl := (if str_truthy (ar_videoUrl b)
                                             then ar_videoUrl b else None)\<rparr>)
                    else a) (answers st)"
proof -
  have mq: "q_id mq = f_mainQuestionId fu" using assms(4) by (auto dest: find_Some_set)
  from assms(5) obtain y
    where y: "find (\<lambda>a. a_hrQuestionId a = Some (f_mainQuestionId fu)) (answers st) = Some y"
    by (cases "find (\<lambda>a. a_hrQuestionId a = Some (f_mainQuestionId fu)) (answers st)")
       (auto simp: find_None_iff)
  show ?thesis
    using assms(1-4) y mq
    by (simp add: processFollowUpQuestion_def score_followup_answer_def upsert_answer_def
        auth_def reply_def Let_def)
qed


subsection \<open>The cap on follow-up questions\<close>

lemma followUps_create_followup:
  "create_followup d st = (x, st') \<Longrightarrow>
   followUpQuestions_of st' q =
     followUpQuestions_of st q @ (if f_mainQuestionId d = q then [x] else [])"
  by (auto simp: create_followup_def followUpQuestions_of_def Let_def)

lemma followups_save_main_answer:
  "save_main_answer q u b an st = Some (x, st') \<Longrightarrow> followups st' = followups st"
  by (auto simp: save_main_answer_def update_answer_def create_answer_def Let_def
      split: option.splits if_splits)

lemma cap_generated:
  assumes "cap_ok st" "create_followup (generated_followup x t) st = (y, st')"
    "length (followUpQuestions_of st (q_id x)) < MAX_FOLLOWUP_QUESTIONS"
  shows "cap_ok st'"
  using assms(1,3) followUps_create_followup[OF assms(2)]
  by (auto simp: cap_ok_def generated_followup_def)

lemma cap_questions_GET:
  assumes "cap_ok st"
  shows "cap_ok (fst (snd (questions_GET ai s i q g st)))"
  using assms
  by (auto simp: questions_GET_def Let_def view_question_def
      split: option.splits prod.splits intro: cap_generated)

lemma cap_questions_POST:
  assumes "cap_ok st"
  shows "cap_ok (fst (snd (questions_POST ai s i b st)))"
  using assms
  by (auto simp: questions_POST_def Let_def not_le
      split: option.splits prod.splits intro: cap_generated)

lemma cap_main_next_question:
  assumes "cap_ok st1" "fs = followUpQuestions_of st1 (q_id h)"
    "main_next_question ai h fs st1 = (x, st2, k)"
  shows "cap_ok st2"
proof (cases fs)
  case (Cons f fs')
  then show ?thesis using assms by (simp add: main_next_question_def)
next
  case Nil
  show ?thesis
  proof (cases "str_truthy (ai 1)")
    case False
    then show ?thesis using assms Nil by (simp add: main_next_question_def)
  next
    case True
    obtain y st' where c: "create_followup (scored_followup h (opt_or (ai 1) [])) st1 = (y, st')"
      by fastforce
    with assms(3) Nil True have "st2 = st'" by (simp add: main_next_question_def)
    with followUps_create_followup[OF c] assms(1,2) Nil show ?thesis
      by (auto simp: cap_ok_def scored_followup_def MAX_FOLLOWUP_QUESTIONS_def)
  qed
qed

lemma cap_processMainQuestion:
  assumes "cap_ok st"
  shows "cap_ok (fst (snd (processMainQuestion ai s b st)))"
proof -
  have "cap_ok st2"
    if "save_main_answer q u r an st = Some (x, st1)"
      "find (\<lambda>z. q_id z = q) (questions st) = Some h"
      "main_next_question ai h (followUpQuestions_of st q) st1 = (y, st2, k)"
    for q u r an x st1 h y st2 k
  proof -
    have f: "followups st1 = followups st" using that(1) by (rule followups_save_main_answer)
    have q: "q_id h = q" using that(2) by (auto dest: find_Some_set)
    have "cap_ok st1" using assms f by (simp add: cap_ok_def followUpQuestions_of_def)
    moreover have "followUpQuestions_of st q = followUpQuestions_of st1 (q_id h)"
      using f q by (simp add: followUpQuestions_of_def)
    ultimately show ?thesis using that(3) by (rule cap_main_next_question)
  qed
  then show ?thesis
    using assms
    by (auto simp: processMainQuestion_def Let_def split: option.splits prod.splits)
qed

text \<open>
  Claim C1 does not hold of the code. \<open>processFollowUpQuestion\<close>, given \<open>hrQuestionId\<close>
  without \<open>followUpQuestionId\<close>, generates and persists a follow-up question without
  looking at the number the main question already has: from the store of one user, the
  creation of an interview with one question and then three such requests leave the
  question with three follow-up questions, one more than \<open>MAX_FOLLOWUP_QUESTIONS\<close>. (The
  three lemmas above show that the question \<open>GET\<close>, the question \<open>POST\<close> and
  \<open>processMainQuestion\<close> do keep the bound.)
\<close>

theorem followup_cap_exceeded:
  "map q_id (questions (run [create_request] first_store)) = [1]
   \<and> length (followUpQuestions_of
        (run [create_request, put_request, put_request] first_store) 1) = 2
   \<and> length (followUpQuestions_of
        (run [create_request, put_request, put_request, put_request] first_store) 1) = 3
   \<and> MAX_FOLLOWUP_QUESTIONS = 2"
  by code_simp


subsection \<open>The percentage and the verdict of the results page\<close>
















end
